theory Spec2Isabelle
  imports Complex_Main "HOL-Library.AList"
begin

section \<open>Time\<close>

text \<open>
  A naive Python \<open>datetime\<close> is modelled by the number of microseconds since the
  start of its calendar (an unbounded \<open>int\<close>), a \<open>timedelta\<close> by a number of
  microseconds, and a \<open>date\<close> by its day number. Every call of \<open>datetime.now()\<close> in
  the source is a separate clock reading and is an explicit argument of the model.
\<close>

type_synonym timestamp = int
type_synonym timedelta = int

definition hours_td :: "int \<Rightarrow> timedelta" where
  "hours_td h = h * 3600 * 1000000"

section \<open>The session manager (controllers/session\_manager.py)\<close>

text \<open>
  \<open>SessionManager._sessions\<close> is a Python dict from the session token to a dict with
  the keys \<open>user_id\<close>, \<open>created_at\<close> and \<open>last_used\<close>. The dict is an association
  list in insertion order: assignment to an existing key replaces the value in place,
  assignment to a new key appends.
\<close>

record session_data =
  user_id :: int
  created_at :: timestamp
  last_used :: timestamp

type_synonym sessions = "(string \<times> session_data) list"

definition init_sessions :: sessions where
  "init_sessions = []"

definition cleanup_interval :: timedelta where
  "cleanup_interval = hours_td 24"

text \<open>
  \<open>_cleanup_expired_sessions\<close>: collect the tokens whose age is strictly greater than
  the interval, then delete each of them.
\<close>

definition expired_tokens :: "sessions \<Rightarrow> timestamp \<Rightarrow> string list" where
  "expired_tokens S now =
     map fst (filter (\<lambda>(token, data). now - created_at data > cleanup_interval) S)"

definition cleanup_expired_sessions :: "sessions \<Rightarrow> timestamp \<Rightarrow> sessions" where
  "cleanup_expired_sessions S now = fold AList.delete (expired_tokens S now) S"

text \<open>
  \<open>store_session\<close> reads the clock three times: for \<open>created_at\<close>, for \<open>last_used\<close>
  and inside the cleanup.
\<close>

definition store_session ::
  "sessions \<Rightarrow> string \<Rightarrow> int \<Rightarrow> timestamp \<Rightarrow> timestamp \<Rightarrow> timestamp \<Rightarrow> sessions" where
  "store_session S session_token uid t_created t_used t_cleanup =
     cleanup_expired_sessions
       (AList.update session_token
          \<lparr>user_id = uid, created_at = t_created, last_used = t_used\<rparr> S)
       t_cleanup"

text \<open>
  \<open>get_user_id\<close> reads the clock for the expiry test and, on success, once more for
  \<open>last_used\<close>. The stored dict has three keys, so \<open>if session_data:\<close> holds exactly when
  the token is present. The result is the returned value and the store afterwards.
\<close>

definition get_user_id ::
  "sessions \<Rightarrow> string \<Rightarrow> timestamp \<Rightarrow> timestamp \<Rightarrow> int option \<times> sessions" where
  "get_user_id S session_token t_check t_used =
     (case map_of S session_token of
        None \<Rightarrow> (None, S)
      | Some data \<Rightarrow>
          if t_check - created_at data < cleanup_interval
          then (Some (user_id data),
                AList.update session_token (data\<lparr>last_used := t_used\<rparr>) S)
          else (None, AList.delete session_token S))"

definition remove_session :: "sessions \<Rightarrow> string \<Rightarrow> sessions" where
  "remove_session S session_token =
     (if session_token \<in> fst ` set S then AList.delete session_token S else S)"

definition get_session_count :: "sessions \<Rightarrow> nat" where
  "get_session_count S = length S"

text \<open>A dict has each key once.\<close>

definition sessions_ok :: "sessions \<Rightarrow> bool" where
  "sessions_ok S = distinct (map fst S)"

section \<open>Calendar\<close>

text \<open>
  Dates and times of day as Python's \<open>datetime\<close> module counts them: \<open>ymd2ord\<close> is
  the proleptic Gregorian ordinal of a date (\<open>date.toordinal\<close>), and a naive
  \<open>datetime\<close> is the number of microseconds since the start of ordinal day 0. The
  calendar fields given to \<open>mk_datetime\<close> are taken to be valid.
\<close>

definition usec_per_second :: int where
  "usec_per_second = 1000000"

definition usec_per_day :: int where
  "usec_per_day = 86400 * 1000000"

definition is_leap :: "int \<Rightarrow> bool" where
  "is_leap y = (y mod 4 = 0 \<and> (y mod 100 \<noteq> 0 \<or> y mod 400 = 0))"

definition days_before_year :: "int \<Rightarrow> int" where
  "days_before_year y = (y - 1) * 365 + (y - 1) div 4 - (y - 1) div 100 + (y - 1) div 400"

definition days_before_month :: "int \<Rightarrow> int \<Rightarrow> int" where
  "days_before_month y m =
     [0, 31, 59, 90, 120, 151, 181, 212, 243, 273, 304, 334] ! nat (m - 1)
     + (if m > 2 \<and> is_leap y then 1 else 0)"

definition ymd2ord :: "int \<Rightarrow> int \<Rightarrow> int \<Rightarrow> int" where
  "ymd2ord y m d = days_before_year y + days_before_month y m + d"

definition mk_datetime :: "int \<Rightarrow> int \<Rightarrow> int \<Rightarrow> int \<Rightarrow> int \<Rightarrow> int \<Rightarrow> int \<Rightarrow> timestamp" where
  "mk_datetime y m d hh mm ss us =
     ymd2ord y m d * usec_per_day + ((hh * 60 + mm) * 60 + ss) * usec_per_second + us"

text \<open>\<open>datetime.date()\<close>: the day a timestamp falls on.\<close>

definition date_of :: "timestamp \<Rightarrow> int" where
  "date_of t = t div usec_per_day"

text \<open>
  The search domains compare the stored \<open>check_in\<close> with strings such as
  \<open>today.strftime('%Y-%m-%d 00:00:00')\<close> and \<open>f'{today} 23:59:59'\<close>; the database
  reads such a string as the timestamp it spells.
\<close>

definition day_start :: "int \<Rightarrow> timestamp" where
  "day_start d = d * usec_per_day"

definition day_last_second :: "int \<Rightarrow> timestamp" where
  "day_last_second d = d * usec_per_day + ((23 * 60 + 59) * 60 + 59) * usec_per_second"

text \<open>
  The calendar date in the zone Asia/Jakarta (UTC+7, no daylight saving) of an instant
  given as a UTC timestamp.
\<close>

definition wib_date :: "timestamp \<Rightarrow> int" where
  "wib_date t = date_of (t + hours_td 7)"

section \<open>Working hours\<close>

text \<open>
  The source computes, from the \<open>timedelta\<close> \<open>duration\<close>,
  \<^verbatim>\<open>
  hours = int(duration.total_seconds() // 3600)
  minutes = int((duration.total_seconds() % 3600) // 60)
  seconds = int(duration.total_seconds() % 60)
  working_hours = f"{hours:02d}:{minutes:02d}:{seconds:02d}"
  \<close>
  \<open>total_seconds()\<close> is the double nearest to the number of microseconds divided
  by \<open>10**6\<close> (a correctly rounded division of integers, ties to the even
  significand of 53 bits). A double is modelled by the real number it stands for.
\<close>

definition round_half_even :: "real \<Rightarrow> int" where
  "round_half_even y =
     (let f = \<lfloor>y\<rfloor>
      in if y - real_of_int f < 1 / 2 then f
         else if 1 / 2 < y - real_of_int f then f + 1
         else if even f then f else f + 1)"

text \<open>The number of binary digits of a natural number.\<close>

fun bit_length :: "nat \<Rightarrow> nat" where
  "bit_length n = (if n = 0 then 0 else Suc (bit_length (n div 2)))"

declare bit_length.simps [simp del]

text \<open>
  How often a number of microseconds below one second is doubled to reach one second
  (at most 20 times).
\<close>

fun doublings :: "nat \<Rightarrow> nat \<Rightarrow> nat" where
  "doublings 0 n = 0"
| "doublings (Suc k) n = (if 1000000 \<le> n then 0 else Suc (doublings k (2 * n)))"

text \<open>
  The binary exponent \<open>e\<close> of \<open>n\<close> microseconds in seconds, for \<open>n > 0\<close>:
  \<open>2 ^ e \<le> n / 10 ^ 6 < 2 ^ (e + 1)\<close>.
\<close>

definition seconds_exponent :: "nat \<Rightarrow> int" where
  "seconds_exponent n =
     (if 1000000 \<le> n then int (bit_length (n div 1000000)) - 1
      else - int (doublings 20 n))"

definition total_seconds :: "timedelta \<Rightarrow> real" where
  "total_seconds d =
     (if d = 0 then 0
      else
        (let e = seconds_exponent (nat \<bar>d\<bar>);
             m = (if e \<le> 52
                  then real_of_int (round_half_even
                         (real_of_int \<bar>d\<bar> * 2 ^ nat (52 - e) / 1000000))
                       / 2 ^ nat (52 - e)
                  else real_of_int (round_half_even
                         (real_of_int \<bar>d\<bar> / (1000000 * 2 ^ nat (e - 52))))
                       * 2 ^ nat (e - 52))
         in if d < 0 then - m else m))"

text \<open>
  On floats \<open>//\<close> is the floor of the quotient, \<open>%\<close> the remainder with the sign
  of the divisor, and \<open>int\<close> truncates towards zero. For a non-negative double below
  \<open>2 ^ 53\<close> and the divisors 3600 and 60 both results are doubles, so that the two
  operations compute exactly.
\<close>

definition py_floordiv :: "real \<Rightarrow> real \<Rightarrow> real" where
  "py_floordiv x y = real_of_int \<lfloor>x / y\<rfloor>"

definition py_mod :: "real \<Rightarrow> real \<Rightarrow> real" where
  "py_mod x y = x - real_of_int \<lfloor>x / y\<rfloor> * y"

definition py_int :: "real \<Rightarrow> int" where
  "py_int x = (if 0 \<le> x then \<lfloor>x\<rfloor> else \<lceil>x\<rceil>)"

text \<open>The decimal digits of a natural number, as \<open>str\<close> prints them.\<close>

fun digits :: "nat \<Rightarrow> string" where
  "digits n =
     (if n < 10 then [''0123456789'' ! n]
      else digits (n div 10) @ [''0123456789'' ! (n mod 10)])"

declare digits.simps [simp del]

text \<open>
  The format \<open>02d\<close>: at least two characters, zeros between the sign and the digits.
\<close>

definition format_02d :: "int \<Rightarrow> string" where
  "format_02d n =
     (if n < 0
      then CHR ''-'' # replicate (1 - length (digits (nat (- n)))) CHR ''0'' @ digits (nat (- n))
      else replicate (2 - length (digits (nat n))) CHR ''0'' @ digits (nat n))"

definition working_hours_of :: "timedelta \<Rightarrow> string" where
  "working_hours_of duration =
     (let hours = py_int (py_floordiv (total_seconds duration) 3600);
          minutes = py_int (py_floordiv (py_mod (total_seconds duration) 3600) 60);
          seconds = py_int (py_mod (total_seconds duration) 60)
      in format_02d hours @ '':'' @ format_02d minutes @ '':'' @ format_02d seconds)"

text \<open>
  What the specification asks for: the elapsed time cut to whole seconds, written as
  hours, minutes and seconds, each zero-padded to two digits.
\<close>

definition pad2 :: "nat \<Rightarrow> string" where
  "pad2 n = (if n < 10 then ''0'' @ digits n else digits n)"

definition spec_hh_mm_ss :: "timedelta \<Rightarrow> string" where
  "spec_hh_mm_ss d =
     (let secs = nat (d div usec_per_second)
      in pad2 (secs div 3600) @ '':'' @ pad2 (secs div 60 mod 60) @ '':'' @ pad2 (secs mod 60))"

section \<open>Request data\<close>

text \<open>
  A decoded JSON value. Python floats are modelled by the real numbers they stand for.
  \<open>json.loads\<close> turns an object into a dict, where a later pair with the same key
  replaces an earlier one, and \<open>data.get(key)\<close> is \<open>None\<close> for an absent key.
\<close>

datatype json =
    JNull
  | JBool bool
  | JInt int
  | JFloat real
  | JStr string
  | JArr "json list"
  | JObj "(string \<times> json) list"

definition dict_get :: "(string \<times> json) list \<Rightarrow> string \<Rightarrow> json" where
  "dict_get data k = (case map_of (rev data) k of None \<Rightarrow> JNull | Some v \<Rightarrow> v)"

text \<open>Python truth value testing, as used by \<open>if not latitude\<close>.\<close>

fun truthy :: "json \<Rightarrow> bool" where
  "truthy JNull = False"
| "truthy (JBool b) = b"
| "truthy (JInt n) = (n \<noteq> 0)"
| "truthy (JFloat x) = (x \<noteq> 0)"
| "truthy (JStr s) = (s \<noteq> [])"
| "truthy (JArr xs) = (xs \<noteq> [])"
| "truthy (JObj kvs) = (kvs \<noteq> [])"

text \<open>
  Two library functions are parameters of the model: Python's conversion of a string
  to a float, and geopy's \<open>geodesic(p, q).meters\<close>. \<open>None\<close> stands for a raised
  exception.
\<close>

record ext =
  str_float :: "string \<Rightarrow> real option"
  geodesic :: "real \<times> real \<Rightarrow> real \<times> real \<Rightarrow> real option"

text \<open>
  \<open>float(v)\<close>: \<open>None\<close> is a \<open>TypeError\<close>, a \<open>ValueError\<close> or, for an
  integer that rounds beyond the largest double, an \<open>OverflowError\<close>.
\<close>

fun to_float :: "ext \<Rightarrow> json \<Rightarrow> real option" where
  "to_float X JNull = None"
| "to_float X (JBool b) = Some (if b then 1 else 0)"
| "to_float X (JInt n) =
     (if \<bar>n\<bar> < 2 ^ 1024 - 2 ^ 970 then Some (real_of_int n) else None)"
| "to_float X (JFloat x) = Some x"
| "to_float X (JStr s) = str_float X s"
| "to_float X (JArr xs) = None"
| "to_float X (JObj kvs) = None"

text \<open>
  The body of the HTTP request: empty, not decodable as UTF-8, not JSON, or a JSON
  value.
\<close>

datatype body = Empty_body | Not_utf8 | Not_json | Parsed json

record user =
  usr_id :: nat
  usr_name :: string
  usr_email :: string

text \<open>
  A request carries the user found by \<open>_get_user_from_session\<close> (none when the
  bearer token is missing, unknown or expired), the body, and the company of the
  request environment (\<open>request.env.company\<close>).
\<close>

record request =
  auth_user :: "user option"
  req_body :: body
  env_company :: nat

text \<open>
  The clock readings of one request: \<open>now_naive\<close> is \<open>datetime.now()\<close> (also
  \<open>date.today()\<close>), the naive local time of the server; \<open>now_local\<close> is
  \<open>datetime.now(Asia/Jakarta)\<close>, an instant, given by the naive UTC timestamp that
  \<open>astimezone(pytz.UTC).replace(tzinfo=None)\<close> makes of it.
\<close>

record clock =
  now_naive :: timestamp
  now_local :: timestamp

section \<open>Stored records\<close>

record employee =
  emp_id :: nat
  emp_name :: string
  work_email :: string
  emp_user_id :: "nat option"
  company_id :: "nat option"

record company =
  comp_id :: nat
  latitude :: real
  longitude :: real

text \<open>
  \<open>hr.attendance\<close> with the fields added by \<open>hris_attendance_gps\<close>. \<open>check_out\<close>
  is \<open>None\<close> while the column is NULL.
\<close>

record attendance =
  att_id :: nat
  employee_id :: nat
  check_in :: timestamp
  check_out :: "timestamp option"
  working_hours :: string
  selfie_photo :: json
  att_latitude :: json
  att_longitude :: json

text \<open>
  The record store is a plain table store: \<open>create\<close> appends a row with a fresh
  id, \<open>search\<close> filters. Validation done by models outside this repository is not part
  of the model.
\<close>

record db =
  employees :: "employee list"
  attendances :: "attendance list"
  companies :: "company list"

definition fresh_id :: "nat list \<Rightarrow> nat" where
  "fresh_id ids = Suc (fold max ids 0)"

definition create_employee :: "user \<Rightarrow> nat \<Rightarrow> db \<Rightarrow> employee \<times> db" where
  "create_employee u cid d =
     (let e = \<lparr>emp_id = fresh_id (map emp_id (employees d)), emp_name = usr_name u,
                work_email = usr_email u, emp_user_id = Some (usr_id u), company_id = Some cid\<rparr>
      in (e, d\<lparr>employees := employees d @ [e]\<rparr>))"

definition create_attendance :: "nat \<Rightarrow> timestamp \<Rightarrow> json \<Rightarrow> json \<Rightarrow> json \<Rightarrow> db \<Rightarrow> attendance \<times> db" where
  "create_attendance eid t photo lat lon d =
     (let r = \<lparr>att_id = fresh_id (map att_id (attendances d)), employee_id = eid,
                check_in = t, check_out = None, working_hours = ''00:00:00'',
                selfie_photo = photo, att_latitude = lat, att_longitude = lon\<rparr>
      in (r, d\<lparr>attendances := attendances d @ [r]\<rparr>))"

text \<open>\<open>search([('user_id', '=', user.id)])\<close> on \<open>hr.employee\<close>, in table order.\<close>

definition employees_of_user :: "db \<Rightarrow> nat \<Rightarrow> employee list" where
  "employees_of_user d u = filter (\<lambda>e. emp_user_id e = Some u) (employees d)"

definition find_company :: "db \<Rightarrow> nat \<Rightarrow> company option" where
  "find_company d cid = find (\<lambda>c. comp_id c = cid) (companies d)"

text \<open>
  \<open>hr.attendance\<close> is read latest check-in first (the order the dashboard and the
  check-out endpoint ask for, and the order of the model), so \<open>limit=1\<close> gives the
  matching row with the greatest \<open>check_in\<close>.
\<close>

fun latest :: "attendance list \<Rightarrow> attendance option" where
  "latest [] = None"
| "latest (r # rs) =
     (case latest rs of
        None \<Rightarrow> Some r
      | Some r' \<Rightarrow> if check_in r < check_in r' then Some r' else Some r)"

text \<open>
  The toggle's search: \<open>check_in >= today 00:00:00\<close> and
  \<open>check_in < (today + 1 day) 00:00:00\<close>.
\<close>

definition in_today :: "int \<Rightarrow> attendance \<Rightarrow> bool" where
  "in_today today r = (day_start today \<le> check_in r \<and> check_in r < day_start (today + 1))"

definition today_attendance :: "db \<Rightarrow> nat \<Rightarrow> int \<Rightarrow> attendance option" where
  "today_attendance d eid today =
     latest (filter (\<lambda>r. employee_id r = eid \<and> in_today today r) (attendances d))"

text \<open>
  The check-in endpoint's search: \<open>check_out = False\<close>,
  \<open>check_in >= today 00:00:00\<close> and \<open>check_in <= today 23:59:59\<close>.
\<close>

definition existing_attendance :: "db \<Rightarrow> nat \<Rightarrow> int \<Rightarrow> attendance option" where
  "existing_attendance d eid today =
     latest (filter (\<lambda>r. employee_id r = eid \<and> check_out r = None
                        \<and> day_start today \<le> check_in r \<and> check_in r \<le> day_last_second today)
               (attendances d))"

text \<open>The check-out endpoint's search: the employee's open rows of any day.\<close>

definition active_attendance :: "db \<Rightarrow> nat \<Rightarrow> attendance option" where
  "active_attendance d eid =
     latest (filter (\<lambda>r. employee_id r = eid \<and> check_out r = None) (attendances d))"

text \<open>
  The SQL statement \<open>UPDATE hr_attendance SET check_out = .., working_hours = ..
  WHERE id = ..\<close>, with \<open>AND check_out IS NULL\<close> when \<open>guarded\<close>, and its row count.
\<close>

definition sql_hit :: "bool \<Rightarrow> nat \<Rightarrow> attendance \<Rightarrow> bool" where
  "sql_hit guarded aid r = (att_id r = aid \<and> (guarded \<longrightarrow> check_out r = None))"

definition sql_update_checkout ::
  "bool \<Rightarrow> nat \<Rightarrow> timestamp \<Rightarrow> string \<Rightarrow> attendance list \<Rightarrow> attendance list" where
  "sql_update_checkout guarded aid t wh rs =
     map (\<lambda>r. if sql_hit guarded aid r then r\<lparr>check_out := Some t, working_hours := wh\<rparr> else r) rs"

definition sql_rowcount :: "bool \<Rightarrow> nat \<Rightarrow> attendance list \<Rightarrow> nat" where
  "sql_rowcount guarded aid rs = length (filter (sql_hit guarded aid) rs)"

text \<open>
  \<open>HrAttendance.write\<close> for values that set \<open>check_out\<close>: after the write, a row
  with a check-in and a check-out gets its \<open>working_hours\<close>.
\<close>

definition write_check_out :: "timestamp option \<Rightarrow> attendance \<Rightarrow> attendance" where
  "write_check_out v r =
     (let r' = r\<lparr>check_out := v\<rparr>
      in case check_out r' of
           None \<Rightarrow> r'
         | Some t \<Rightarrow> r'\<lparr>working_hours := working_hours_of (t - check_in r')\<rparr>)"

section \<open>Responses\<close>

text \<open>
  The JSON envelope. Of an error the status and the message are kept; a message built
  from a float or from the text of an exception is kept as the value it prints.
  Of a success (status 200) the data fields are kept, times as timestamps and the
  distance in metres.
\<close>

datatype message =
    Text string
  | Outside_office real
  | Failure string

record toggle_data =
  action :: string
  event_time :: timestamp
  hours :: "string option"
  is_checked_in :: bool
  distance_from_office :: real

record checkin_data =
  ci_id :: nat
  ci_check_in :: timestamp
  ci_latitude :: json
  ci_longitude :: json
  ci_distance :: real
  ci_within_radius :: bool

record checkout_data =
  co_id :: nat
  co_check_in :: timestamp
  co_check_out :: timestamp

datatype response =
    Json_error nat message
  | Toggle_ok toggle_data
  | Checkin_ok checkin_data
  | Checkout_ok checkout_data

fun status_code :: "response \<Rightarrow> nat" where
  "status_code (Json_error s m) = s"
| "status_code (Toggle_ok x) = 200"
| "status_code (Checkin_ok x) = 200"
| "status_code (Checkout_ok x) = 200"

section \<open>The attendance controller (controllers/attendance.py)\<close>

text \<open>\<open>x or default\<close> on floats.\<close>

definition or_default :: "real \<Rightarrow> real \<Rightarrow> real" where
  "or_default x dflt = (if x \<noteq> 0 then x else dflt)"

text \<open>
  \<open>_is_within_radius\<close>: any exception inside gives \<open>False\<close>. The callers pass the
  submitted values for the user and floats for the office.
\<close>

definition is_within_radius :: "ext \<Rightarrow> json \<Rightarrow> json \<Rightarrow> real \<Rightarrow> real \<Rightarrow> real \<Rightarrow> bool" where
  "is_within_radius X user_lat user_lon office_lat office_lon radius_m =
     (case (to_float X user_lat, to_float X user_lon) of
        (Some a, Some b) \<Rightarrow>
          (case geodesic X (a, b) (office_lat, office_lon) of
             Some distance \<Rightarrow> distance \<le> radius_m
           | None \<Rightarrow> False)
      | _ \<Rightarrow> False)"

text \<open>
  The distance computed by the endpoints before they call \<open>_is_within_radius\<close>;
  \<open>None\<close> when a conversion or \<open>geodesic\<close> raises.
\<close>

definition distance_to_office :: "ext \<Rightarrow> json \<Rightarrow> json \<Rightarrow> real \<Rightarrow> real \<Rightarrow> real option" where
  "distance_to_office X lat lon office_lat office_lon =
     (case (to_float X lat, to_float X lon) of
        (Some a, Some b) \<Rightarrow> geodesic X (a, b) (office_lat, office_lon)
      | _ \<Rightarrow> None)"

text \<open>
  The toggle reads the body with a fallback: an empty body or invalid JSON gives the
  empty dict. Undecodable bytes, or JSON that is not an object (\<open>data.get\<close> fails),
  raise to the outer handler (\<open>None\<close>).
\<close>

definition toggle_data_of :: "body \<Rightarrow> (string \<times> json) list option" where
  "toggle_data_of b =
     (case b of
        Empty_body \<Rightarrow> Some []
      | Not_json \<Rightarrow> Some []
      | Not_utf8 \<Rightarrow> None
      | Parsed j \<Rightarrow> (case j of JObj kvs \<Rightarrow> Some kvs | _ \<Rightarrow> None))"

text \<open>The employee of the user, created when there is none (toggle).\<close>

definition toggle_employee :: "user \<Rightarrow> nat \<Rightarrow> db \<Rightarrow> employee \<times> db" where
  "toggle_employee u env_cid d =
     (case employees_of_user d (usr_id u) of
        e # es \<Rightarrow> (e, d)
      | [] \<Rightarrow> create_employee u env_cid d)"

text \<open>
  The office of the toggle: the company's coordinates, each replaced by the default
  when zero; when one is still falsy, the defaults are written to the company.
\<close>

definition set_company_coords :: "nat \<Rightarrow> real \<Rightarrow> real \<Rightarrow> db \<Rightarrow> db" where
  "set_company_coords cid lat lon d =
     d\<lparr>companies := map (\<lambda>c. if comp_id c = cid then c\<lparr>latitude := lat, longitude := lon\<rparr> else c)
                       (companies d)\<rparr>"

definition toggle_office :: "company \<Rightarrow> db \<Rightarrow> (real \<times> real) \<times> db" where
  "toggle_office c d =
     (let office_lat = or_default (latitude c) (-6.969182);
          office_lon = or_default (longitude c) 107.629251
      in if office_lat = 0 \<or> office_lon = 0
         then ((-6.969182, 107.629251), set_company_coords (comp_id c) (-6.969182) 107.629251 d)
         else ((office_lat, office_lon), d))"

text \<open>
  The distance block of the toggle (lines 389 to 404): an exception gives the 500
  response, a position outside the radius of 100000 metres the 400 response that
  reports the distance, and otherwise the distance is kept.
\<close>

definition toggle_geofence :: "ext \<Rightarrow> json \<Rightarrow> json \<Rightarrow> real \<Rightarrow> real \<Rightarrow> response + real" where
  "toggle_geofence X lat lon office_lat office_lon =
     (case distance_to_office X lat lon office_lat office_lon of
        None \<Rightarrow> Inl (Json_error 500 (Text ''Error validating location''))
      | Some distance \<Rightarrow>
          if \<not> is_within_radius X lat lon office_lat office_lon 100000
          then Inl (Json_error 400 (Outside_office distance))
          else Inr distance)"

text \<open>
  Lines 318 to 404: authentication, the required fields, the employee, the office and
  the distance. The result is the response that ends the request there, or what the
  rest of the handler works with; in both cases with the store as left behind. The
  outer handler rolls the transaction back, so its error leaves the store as it was; a
  response returned from inside keeps what was written before it.
\<close>

record validated =
  v_employee :: employee
  v_latitude :: json
  v_longitude :: json
  v_camera_image :: json
  v_distance :: real

definition toggle_validate :: "ext \<Rightarrow> request \<Rightarrow> db \<Rightarrow> (response \<times> db) + (validated \<times> db)" where
  "toggle_validate X req d =
     (case auth_user req of
        None \<Rightarrow> Inl (Json_error 401 (Text ''Authentication required''), d)
      | Some u \<Rightarrow>
         (case toggle_data_of (req_body req) of
            None \<Rightarrow> Inl (Json_error 500 (Failure ''Error during check-in/out''), d)
          | Some data \<Rightarrow>
             (let lat = dict_get data ''latitude'';
                  lon = dict_get data ''longitude'';
                  camera_image = dict_get data ''camera_image''
              in if \<not> truthy lat \<or> \<not> truthy lon
                 then Inl (Json_error 400 (Text ''GPS coordinates are required for attendance''), d)
                 else if \<not> truthy camera_image
                 then Inl (Json_error 400 (Text ''Camera photo is required for attendance''), d)
                 else
                  (let (e, d1) = toggle_employee u (env_company req) d;
                       cid = (case company_id e of Some c \<Rightarrow> c | None \<Rightarrow> env_company req)
                   in case find_company d1 cid of
                        None \<Rightarrow> Inl (Json_error 500 (Failure ''Error during check-in/out''), d)
                      | Some c \<Rightarrow>
                         (let ((office_lat, office_lon), d2) = toggle_office c d1
                          in case toggle_geofence X lat lon office_lat office_lon of
                               Inl resp \<Rightarrow> Inl (resp, d2)
                             | Inr distance \<Rightarrow>
                                 Inr (\<lparr>v_employee = e, v_latitude = lat, v_longitude = lon,
                                       v_camera_image = camera_image, v_distance = distance\<rparr>,
                                      d2))))))"

text \<open>
  Lines 406 to 524: the attendance cycle of the day, for the employee and the
  submitted values of a request that has passed validation.
\<close>

definition toggle_cycle :: "clock \<Rightarrow> validated \<Rightarrow> db \<Rightarrow> response \<times> db" where
  "toggle_cycle clk v d =
     (let today = date_of (now_naive clk)
      in case today_attendance d (emp_id (v_employee v)) today of
           Some r \<Rightarrow>
             (if check_out r = None then
                (let check_out_utc = now_local clk;
                     wh = working_hours_of (check_out_utc - check_in r)
                 in if sql_rowcount True (att_id r) (attendances d) = 0
                    then (Json_error 500 (Text ''Failed to update checkout''), d)
                    else (Toggle_ok \<lparr>action = ''check_out'', event_time = check_out_utc,
                                      hours = Some wh, is_checked_in = False,
                                      distance_from_office = v_distance v\<rparr>,
                          d\<lparr>attendances :=
                               sql_update_checkout True (att_id r) check_out_utc wh (attendances d)\<rparr>))
              else (Json_error 400
                      (Text ''Anda sudah melakukan check-in dan check-out hari ini. Tunggu sampai besok untuk attendance berikutnya.''),
                    d))
         | None \<Rightarrow>
             (let check_in_utc = now_local clk;
                  (r, d') = create_attendance (emp_id (v_employee v)) check_in_utc
                              (v_camera_image v) (v_latitude v) (v_longitude v) d
              in (Toggle_ok \<lparr>action = ''check_in'', event_time = check_in_utc,
                                hours = None, is_checked_in = True,
                                distance_from_office = v_distance v\<rparr>,
                  d')))"

text \<open>\<open>toggle_checkin_checkout\<close>, for a request other than \<open>OPTIONS\<close>.\<close>

definition toggle_checkin_checkout :: "ext \<Rightarrow> clock \<Rightarrow> request \<Rightarrow> db \<Rightarrow> response \<times> db" where
  "toggle_checkin_checkout X clk req d =
     (case toggle_validate X req d of
        Inl out \<Rightarrow> out
      | Inr (v, d2) \<Rightarrow> toggle_cycle clk v d2)"

text \<open>
  The check-in and check-out endpoints read the body without a fallback: an empty body
  or invalid JSON is a \<open>JSONDecodeError\<close>, anything else that fails raises to the
  general handler.
\<close>

datatype loaded = Invalid_json | Raises | Dict "(string \<times> json) list"

definition strict_data_of :: "body \<Rightarrow> loaded" where
  "strict_data_of b =
     (case b of
        Empty_body \<Rightarrow> Invalid_json
      | Not_json \<Rightarrow> Invalid_json
      | Not_utf8 \<Rightarrow> Raises
      | Parsed j \<Rightarrow> (case j of JObj kvs \<Rightarrow> Dict kvs | _ \<Rightarrow> Raises))"

text \<open>
  The employee of the user in the check-in endpoint: with several, the first is kept
  and the others lose their user; with none, one is created.
\<close>

definition clear_user :: "nat list \<Rightarrow> db \<Rightarrow> db" where
  "clear_user ids d =
     d\<lparr>employees := map (\<lambda>e. if emp_id e \<in> set ids then e\<lparr>emp_user_id := None\<rparr> else e)
                       (employees d)\<rparr>"

definition checkin_employee :: "user \<Rightarrow> nat \<Rightarrow> db \<Rightarrow> employee \<times> db" where
  "checkin_employee u env_cid d =
     (case employees_of_user d (usr_id u) of
        [] \<Rightarrow> create_employee u env_cid d
      | [e] \<Rightarrow> (e, d)
      | e # es \<Rightarrow> (e, clear_user (map emp_id es) d))"

text \<open>
  The distance block of the check-in endpoint (lines 590 to 613): the distance and
  \<open>within_radius\<close>. A failure inside is logged, and the request goes on with
  \<open>distance = 0.0\<close> and \<open>within_radius = True\<close>.
\<close>

definition check_in_distance :: "ext \<Rightarrow> json \<Rightarrow> json \<Rightarrow> company \<Rightarrow> real \<times> bool" where
  "check_in_distance X lat lon c =
     (let office_lat = or_default (latitude c) (-6.986682);
          office_lon = or_default (longitude c) 107.637303
      in case distance_to_office X lat lon office_lat office_lon of
           None \<Rightarrow> (0, True)
         | Some distance \<Rightarrow>
             (distance, is_within_radius X lat lon office_lat office_lon 100000))"

text \<open>Lines 615 to 657: the search for an open record of today, and the new record.\<close>

definition check_in_create ::
  "clock \<Rightarrow> employee \<Rightarrow> (string \<times> json) list \<Rightarrow> real \<Rightarrow> bool \<Rightarrow> db \<Rightarrow> response \<times> db" where
  "check_in_create clk e data distance within_radius d =
     (case existing_attendance d (emp_id e) (date_of (now_naive clk)) of
        Some r \<Rightarrow> (Json_error 400 (Text ''Employee is already checked in today''), d)
      | None \<Rightarrow>
          (let (r, d') = create_attendance (emp_id e) (now_local clk)
                           (dict_get data ''selfie_photo'') (dict_get data ''latitude'')
                           (dict_get data ''longitude'') d
           in (Checkin_ok \<lparr>ci_id = att_id r, ci_check_in = check_in r,
                              ci_latitude = dict_get data ''latitude'',
                              ci_longitude = dict_get data ''longitude'',
                              ci_distance = distance,
                              ci_within_radius = within_radius\<rparr>,
               d')))"

text \<open>
  \<open>check_in\<close>, for a request other than \<open>OPTIONS\<close>. The general handler does not
  roll back.
\<close>

definition check_in_endpoint :: "ext \<Rightarrow> clock \<Rightarrow> request \<Rightarrow> db \<Rightarrow> response \<times> db" where
  "check_in_endpoint X clk req d =
     (case auth_user req of
        None \<Rightarrow> (Json_error 401 (Text ''Authentication required''), d)
      | Some u \<Rightarrow>
         (case strict_data_of (req_body req) of
            Invalid_json \<Rightarrow> (Json_error 400 (Failure ''Invalid JSON data''), d)
          | Raises \<Rightarrow> (Json_error 500 (Failure ''Check-in failed''), d)
          | Dict data \<Rightarrow>
             (let (e, d1) = checkin_employee u (env_company req) d;
                  cid = (case company_id e of Some c \<Rightarrow> c | None \<Rightarrow> env_company req)
              in case find_company d1 cid of
                   None \<Rightarrow> (Json_error 500 (Failure ''Check-in failed''), d1)
                 | Some c \<Rightarrow>
                    (let (distance, within_radius) =
                           check_in_distance X (dict_get data ''latitude'')
                             (dict_get data ''longitude'') c
                     in if \<not> within_radius
                        then (Json_error 400 (Outside_office distance), d1)
                        else check_in_create clk e data distance within_radius d1))))"

text \<open>
  \<open>check_out\<close>. An \<open>employee_id\<close> in the body is looked up when it is an integer;
  any other truthy value makes the lookup raise. The update has no
  \<open>check_out IS NULL\<close> condition.
\<close>

definition checkout_employee :: "user \<Rightarrow> json \<Rightarrow> db \<Rightarrow> employee option option" where
  "checkout_employee u given_id d =
     (let by_user = (case employees_of_user d (usr_id u) of [] \<Rightarrow> None | e # es \<Rightarrow> Some e)
      in if \<not> truthy given_id then Some by_user
         else case given_id of
                JInt n \<Rightarrow>
                  (case find (\<lambda>e. int (emp_id e) = n) (employees d) of
                     Some e \<Rightarrow> Some (Some e)
                   | None \<Rightarrow> Some by_user)
              | _ \<Rightarrow> None)"

text \<open>Lines 695 to 739: the search for the open record and its update.\<close>

definition check_out_active :: "clock \<Rightarrow> employee \<Rightarrow> db \<Rightarrow> response \<times> db" where
  "check_out_active clk e d =
     (case active_attendance d (emp_id e) of
        None \<Rightarrow> (Json_error 400 (Text ''No active check-in found for today''), d)
      | Some r \<Rightarrow>
         (let checkout_time_utc = now_local clk;
              wh = working_hours_of (checkout_time_utc - check_in r)
          in (Checkout_ok \<lparr>co_id = att_id r, co_check_in = check_in r,
                             co_check_out = checkout_time_utc\<rparr>,
              d\<lparr>attendances :=
                   sql_update_checkout False (att_id r) checkout_time_utc wh (attendances d)\<rparr>)))"

definition check_out_endpoint :: "clock \<Rightarrow> request \<Rightarrow> db \<Rightarrow> response \<times> db" where
  "check_out_endpoint clk req d =
     (case auth_user req of
        None \<Rightarrow> (Json_error 401 (Text ''Authentication required''), d)
      | Some u \<Rightarrow>
         (case strict_data_of (req_body req) of
            Invalid_json \<Rightarrow> (Json_error 400 (Text ''Invalid JSON data''), d)
          | Raises \<Rightarrow> (Json_error 500 (Text ''Check-out failed''), d)
          | Dict data \<Rightarrow>
             (case checkout_employee u (dict_get data ''employee_id'') d of
                None \<Rightarrow> (Json_error 500 (Text ''Check-out failed''), d)
              | Some None \<Rightarrow> (Json_error 404 (Text ''Employee not found''), d)
              | Some (Some e) \<Rightarrow> check_out_active clk e d)))"

text \<open>
  The three routes of the attendance cycle: \<open>/api/attendance/toggle\<close>,
  \<open>/api/attendance/checkin\<close> and \<open>/api/attendance/checkout\<close>.
\<close>

datatype route = Toggle | Check_in | Check_out

fun handle :: "ext \<Rightarrow> clock \<Rightarrow> route \<Rightarrow> request \<Rightarrow> db \<Rightarrow> response \<times> db" where
  "handle X clk Toggle req d = toggle_checkin_checkout X clk req d"
| "handle X clk Check_in req d = check_in_endpoint X clk req d"
| "handle X clk Check_out req d = check_out_endpoint clk req d"

section \<open>Example data\<close>

text \<open>
  A stand-in for the two library functions (it reads two coordinate strings and
  measures 3000 metres between different points), one user with an employee, and a
  company without coordinates.
\<close>

definition example_ext :: ext where
  "example_ext =
     \<lparr>str_float = (\<lambda>s. if s = ''-6.969182'' then Some (-6.969182)
                         else if s = ''107.629251'' then Some 107.629251
                         else if s = ''-6.95'' then Some (-6.95)
                         else None),
      geodesic = (\<lambda>p q. Some (if p = q then 0 else 3000))\<rparr>"

definition example_user :: user where
  "example_user = \<lparr>usr_id = 1, usr_name = ''Budi'', usr_email = ''budi@example.com''\<rparr>"

definition example_employee :: employee where
  "example_employee =
     \<lparr>emp_id = 1, emp_name = ''Budi'', work_email = ''budi@example.com'',
      emp_user_id = Some 1, company_id = Some 1\<rparr>"

definition example_company :: company where
  "example_company = \<lparr>comp_id = 1, latitude = 0, longitude = 0\<rparr>"

definition example_db :: "attendance list \<Rightarrow> db" where
  "example_db rs =
     \<lparr>employees = [example_employee], attendances = rs, companies = [example_company]\<rparr>"

definition example_request :: "(string \<times> json) list \<Rightarrow> request" where
  "example_request data =
     \<lparr>auth_user = Some example_user, req_body = Parsed (JObj data), env_company = 1\<rparr>"

definition example_data :: "json \<Rightarrow> json \<Rightarrow> (string \<times> json) list" where
  "example_data lat lon =
     [(''latitude'', lat), (''longitude'', lon), (''camera_image'', JStr ''aGVsbG8='')]"

definition example_attendance :: "nat \<Rightarrow> timestamp \<Rightarrow> timestamp option \<Rightarrow> attendance" where
  "example_attendance i t out =
     \<lparr>att_id = i, employee_id = 1, check_in = t, check_out = out,
      working_hours = ''00:00:00'', selfie_photo = JStr ''aGVsbG8='',
      att_latitude = JStr ''-6.969182'', att_longitude = JStr ''107.629251''\<rparr>"

text \<open>A server whose naive clock shows UTC, at 2025-01-01 01:00:00 UTC (08:00 in Jakarta).\<close>

definition utc_clock :: "timestamp \<Rightarrow> clock" where
  "utc_clock t = \<lparr>now_naive = t, now_local = t\<rparr>"

definition example_clock :: clock where
  "example_clock = utc_clock (mk_datetime 2025 1 1 1 0 0 0)"

text \<open>A stand-in that measures 150 km between any two points.\<close>

definition example_far_ext :: ext where
  "example_far_ext = example_ext\<lparr>geodesic := (\<lambda>p q. Some 150000)\<rparr>"

section \<open>What the specification asks of the attendance cycle\<close>

text \<open>
  The day of the specification: a record is today's when the Jakarta calendar date of
  its check-in is the Jakarta calendar date of the request instant.
\<close>

definition spec_today_attendance :: "db \<Rightarrow> nat \<Rightarrow> timestamp \<Rightarrow> attendance option" where
  "spec_today_attendance d eid now =
     latest (filter (\<lambda>r. employee_id r = eid \<and> wib_date (check_in r) = wib_date now)
               (attendances d))"

text \<open>The open records of an employee on a day, by the stored date and by the Jakarta date.\<close>

definition open_on :: "attendance list \<Rightarrow> nat \<Rightarrow> int \<Rightarrow> attendance list" where
  "open_on rs eid day =
     filter (\<lambda>r. employee_id r = eid \<and> check_out r = None \<and> date_of (check_in r) = day) rs"

definition one_open_per_day :: "attendance list \<Rightarrow> bool" where
  "one_open_per_day rs = (\<forall>eid day. length (open_on rs eid day) \<le> 1)"

definition open_on_wib :: "attendance list \<Rightarrow> nat \<Rightarrow> int \<Rightarrow> attendance list" where
  "open_on_wib rs eid day =
     filter (\<lambda>r. employee_id r = eid \<and> check_out r = None \<and> wib_date (check_in r) = day) rs"

definition one_open_per_wib_day :: "attendance list \<Rightarrow> bool" where
  "one_open_per_wib_day rs = (\<forall>eid day. length (open_on_wib rs eid day) \<le> 1)"

text \<open>A closed record is kept as it is.\<close>

definition closed_kept :: "attendance list \<Rightarrow> attendance list \<Rightarrow> bool" where
  "closed_kept rs rs' = (\<forall>r \<in> set rs. check_out r \<noteq> None \<longrightarrow> r \<in> set rs')"

text \<open>Rows have distinct ids, and no stored check-in is later than a clock reading.\<close>

definition ids_unique :: "attendance list \<Rightarrow> bool" where
  "ids_unique rs = distinct (map att_id rs)"

definition none_after :: "attendance list \<Rightarrow> timestamp \<Rightarrow> bool" where
  "none_after rs t = (\<forall>r \<in> set rs. check_in r \<le> t)"

text \<open>A server whose naive clock shows Jakarta time.\<close>

definition wib_clock :: "timestamp \<Rightarrow> clock" where
  "wib_clock t = \<lparr>now_naive = t + hours_td 7, now_local = t\<rparr>"

section \<open>Effects on the attendance table\<close>

text \<open>
  What one request does to the attendance table: nothing, one new open record stamped
  with the Jakarta clock, or the update that closes an open record (with or without the
  \<open>check_out IS NULL\<close> condition).
\<close>

datatype effect = Unchanged | Created attendance | Closed attendance string

fun applies :: "clock \<Rightarrow> bool \<Rightarrow> attendance list \<Rightarrow> effect \<Rightarrow> attendance list \<Rightarrow> bool" where
  "applies clk g rs Unchanged rs' = (rs' = rs)"
| "applies clk g rs (Created new) rs' =
     (rs' = rs @ [new] \<and> att_id new = fresh_id (map att_id rs)
      \<and> check_in new = now_local clk \<and> check_out new = None)"
| "applies clk g rs (Closed r wh) rs' =
     (r \<in> set rs \<and> check_out r = None
      \<and> rs' = sql_update_checkout g (att_id r) (now_local clk) wh rs)"

section \<open>Properties of the session manager\<close>

lemma map_of_fold_delete:
  "map_of (fold AList.delete ks S) k = (if k \<in> set ks then None else map_of S k)"
proof (induction ks arbitrary: S)
  case Nil
  show ?case by simp
next
  case (Cons a ks)
  show ?case
    by (simp add: Cons.IH AList.delete_conv')
qed

lemma distinct_fold_delete:
  "distinct (map fst S) \<Longrightarrow> distinct (map fst (fold AList.delete ks S))"
  by (induction ks arbitrary: S) (simp_all add: AList.distinct_delete)

lemma map_of_cleanup:
  "map_of (cleanup_expired_sessions S now) k =
     (if k \<in> set (expired_tokens S now) then None else map_of S k)"
  by (simp add: cleanup_expired_sessions_def map_of_fold_delete)

lemma expired_tokens_fresh:
  assumes "distinct (map fst S)"
    and "k \<in> set (expired_tokens (AList.update k d S) now)"
  shows "now - created_at d > cleanup_interval"
proof -
  from assms(2) obtain d' where in_set: "(k, d') \<in> set (AList.update k d S)"
    and old: "now - created_at d' > cleanup_interval"
    by (auto simp: expired_tokens_def)
  have "distinct (map fst (AList.update k d S))"
    using assms(1) by (rule AList.distinct_update)
  with in_set have "map_of (AList.update k d S) k = Some d'"
    by simp
  then have "d' = d"
    by (simp add: AList.update_conv')
  with old show ?thesis by simp
qed

lemma map_of_store_session:
  assumes "sessions_ok S" and "t_cleanup - t_created \<le> cleanup_interval"
  shows "map_of (store_session S tok uid t_created t_used t_cleanup) tok =
           Some \<lparr>user_id = uid, created_at = t_created, last_used = t_used\<rparr>"
proof -
  let ?d = "\<lparr>user_id = uid, created_at = t_created, last_used = t_used\<rparr>"
  from assms(1) have "distinct (map fst S)" by (simp add: sessions_ok_def)
  then have "tok \<notin> set (expired_tokens (AList.update tok ?d S) t_cleanup)"
    using expired_tokens_fresh [of S tok ?d t_cleanup] assms(2) by auto
  then show ?thesis
    by (simp add: store_session_def map_of_cleanup AList.update_conv')
qed

lemma length_delete_present:
  "distinct (map fst S) \<Longrightarrow> map_of S k = Some d \<Longrightarrow> Suc (length (AList.delete k S)) = length S"
proof (induction S)
  case Nil
  then show ?case by simp
next
  case (Cons p S)
  obtain k' d' where p: "p = (k', d')" by (cases p)
  show ?case
  proof (cases "k' = k")
    case True
    with Cons.prems p have "k \<notin> fst ` set S" by auto
    then have "AList.delete k S = S" by simp
    with True p show ?thesis by simp
  next
    case False
    with Cons p show ?thesis by simp
  qed
qed

lemma length_update_present:
  "map_of S k = Some d \<Longrightarrow> length (AList.update k v S) = length S"
  by (induction S) (auto split: if_splits)

lemma sessions_ok_store_session:
  "sessions_ok S \<Longrightarrow> sessions_ok (store_session S tok uid t1 t2 t3)"
  by (simp add: sessions_ok_def store_session_def cleanup_expired_sessions_def
      distinct_fold_delete AList.distinct_update)

lemma sessions_ok_get_user_id:
  "sessions_ok S \<Longrightarrow> sessions_ok (snd (get_user_id S tok t1 t2))"
  by (simp add: sessions_ok_def get_user_id_def AList.distinct_update AList.distinct_delete
      split: option.splits)

text \<open>
  Claim C8. A lookup of a token right after \<open>store_session\<close> bound it to a user, while
  fewer than 24 hours have passed since the binding was created and the clock has not
  gone back since the cleanup inside \<open>store_session\<close>, returns that user; storing the
  same token again replaces the earlier binding, so the lookup returns the new user.
\<close>

theorem store_then_get_user_id:
  assumes "sessions_ok S"
    and "t_cleanup \<le> t_check" and "t_check - t_created < cleanup_interval"
  shows "fst (get_user_id (store_session S tok uid t_created t_used t_cleanup)
                tok t_check t_used') = Some uid
       \<and> fst (get_user_id
                (store_session (store_session S tok uid0 t0 t0' t0'') tok uid
                   t_created t_used t_cleanup)
                tok t_check t_used') = Some uid"
proof -
  from assms have fresh: "t_cleanup - t_created \<le> cleanup_interval" by simp
  have look: "fst (get_user_id (store_session S0 tok uid t_created t_used t_cleanup)
                tok t_check t_used') = Some uid" if "sessions_ok S0" for S0
    using assms(3) by (simp add: get_user_id_def map_of_store_session [OF that fresh])
  have "sessions_ok (store_session S tok uid0 t0 t0' t0'')"
    using assms(1) by (rule sessions_ok_store_session)
  then show ?thesis
    using look [of S] look [of "store_session S tok uid0 t0 t0' t0''"] assms(1) by simp
qed

theorem store_then_get_user_id_witness:
  "sessions_ok init_sessions
 \<and> fst (get_user_id (store_session init_sessions ''abc'' 7 0 0 1) ''abc'' 2 3) = Some 7
 \<and> fst (get_user_id
          (store_session (store_session init_sessions ''abc'' 5 0 0 0) ''abc'' 7 0 0 1)
          ''abc'' 2 3) = Some 7"
proof -
  have ok: "sessions_ok init_sessions" by (simp add: sessions_ok_def init_sessions_def)
  have a: "(1::int) \<le> 2" by simp
  have b: "(2::int) - 0 < cleanup_interval"
    by (simp add: cleanup_interval_def hours_td_def)
  show ?thesis
    using ok store_then_get_user_id [OF ok a b, of "''abc''" 7 0 3 5 0 0 0]
    by simp
qed

text \<open>
  Claim C9. For a stored session, a lookup made when 24 hours or more have passed since
  \<open>created_at\<close> returns none and deletes the entry, so the session count goes down by
  one; a lookup made earlier returns the user, keeps the count and sets \<open>last_used\<close> to
  the clock reading of the lookup. Hence the lookup succeeds exactly when
  \<open>now - created_at < 24 hours\<close>.
\<close>

theorem get_user_id_expiry:
  assumes "sessions_ok S" and "map_of S tok = Some d"
  shows "(cleanup_interval \<le> now - created_at d \<longrightarrow>
            fst (get_user_id S tok now now') = None
          \<and> map_of (snd (get_user_id S tok now now')) tok = None
          \<and> get_session_count (snd (get_user_id S tok now now')) = get_session_count S - 1
          \<and> 0 < get_session_count S)
       \<and> (now - created_at d < cleanup_interval \<longrightarrow>
            fst (get_user_id S tok now now') = Some (user_id d)
          \<and> map_of (snd (get_user_id S tok now now')) tok = Some (d\<lparr>last_used := now'\<rparr>)
          \<and> get_session_count (snd (get_user_id S tok now now')) = get_session_count S)
       \<and> (fst (get_user_id S tok now now') \<noteq> None \<longleftrightarrow> now - created_at d < cleanup_interval)"
proof -
  from assms have len: "Suc (length (AList.delete tok S)) = length S"
    by (simp add: sessions_ok_def length_delete_present)
  have upd: "length (AList.update tok (d\<lparr>last_used := now'\<rparr>) S) = length S"
    using assms(2) by (rule length_update_present)
  show ?thesis
    using assms(2) len upd
    by (auto simp: get_user_id_def get_session_count_def AList.delete_conv' AList.update_conv')
qed

theorem get_user_id_expiry_witness:
  "sessions_ok [(''abc'', \<lparr>user_id = 7, created_at = 0, last_used = 0\<rparr>)]
 \<and> fst (get_user_id [(''abc'', \<lparr>user_id = 7, created_at = 0, last_used = 0\<rparr>)]
          ''abc'' (hours_td 24) (hours_td 24)) = None
 \<and> get_session_count
      (snd (get_user_id [(''abc'', \<lparr>user_id = 7, created_at = 0, last_used = 0\<rparr>)]
              ''abc'' (hours_td 24) (hours_td 24))) = 0
 \<and> fst (get_user_id [(''abc'', \<lparr>user_id = 7, created_at = 0, last_used = 0\<rparr>)]
          ''abc'' (hours_td 24 - 1) (hours_td 24)) = Some 7"
proof -
  let ?d = "\<lparr>user_id = 7, created_at = 0, last_used = 0\<rparr>"
  let ?S = "[(''abc'', ?d)]"
  have ok: "sessions_ok ?S" by (simp add: sessions_ok_def)
  have m: "map_of ?S ''abc'' = Some ?d" by simp
  show ?thesis
    using ok get_user_id_expiry [OF ok m, of "hours_td 24" "hours_td 24"]
      get_user_id_expiry [OF ok m, of "hours_td 24 - 1" "hours_td 24"]
    by (simp add: cleanup_interval_def get_session_count_def)
qed

section \<open>Properties of the working hours\<close>

lemma round_half_even_bounds:
  "real_of_int (round_half_even y) \<le> y + 1 / 2" "y - 1 / 2 \<le> real_of_int (round_half_even y)"
proof -
  let ?f = "\<lfloor>y\<rfloor>"
  have a: "real_of_int ?f \<le> y" by simp
  have b: "y < real_of_int ?f + 1" by linarith
  have c: "round_half_even y = ?f \<and> y - real_of_int ?f \<le> 1 / 2
         \<or> round_half_even y = ?f + 1 \<and> 1 / 2 \<le> y - real_of_int ?f"
    unfolding round_half_even_def Let_def by (simp add: not_less)
  from c show "real_of_int (round_half_even y) \<le> y + 1 / 2"
  proof
    assume h: "round_half_even y = ?f \<and> y - real_of_int ?f \<le> 1 / 2"
    then have "real_of_int (round_half_even y) = real_of_int ?f" by simp
    with a show ?thesis by linarith
  next
    assume h: "round_half_even y = ?f + 1 \<and> 1 / 2 \<le> y - real_of_int ?f"
    then have "real_of_int (round_half_even y) = real_of_int ?f + 1" by simp
    with h show ?thesis by linarith
  qed
  from c show "y - 1 / 2 \<le> real_of_int (round_half_even y)"
  proof
    assume h: "round_half_even y = ?f \<and> y - real_of_int ?f \<le> 1 / 2"
    then have "real_of_int (round_half_even y) = real_of_int ?f" by simp
    with h show ?thesis by linarith
  next
    assume h: "round_half_even y = ?f + 1 \<and> 1 / 2 \<le> y - real_of_int ?f"
    then have "real_of_int (round_half_even y) = real_of_int ?f + 1" by simp
    with b show ?thesis by linarith
  qed
qed

lemma round_half_even_of_int: "round_half_even (real_of_int k) = k"
  by (simp add: round_half_even_def)

lemma bit_length_le: "n < 2 ^ k \<Longrightarrow> bit_length n \<le> k"
proof (induction k arbitrary: n)
  case 0
  then show ?case by (simp add: bit_length.simps)
next
  case (Suc k)
  show ?case
  proof (cases "n = 0")
    case True
    then show ?thesis by (simp add: bit_length.simps)
  next
    case False
    from Suc.prems have "n div 2 < 2 ^ k" by simp
    then have "bit_length (n div 2) \<le> k" by (rule Suc.IH)
    with False show ?thesis by (subst bit_length.simps) simp
  qed
qed

lemma seconds_exponent_le:
  assumes "n < 2 ^ 34 * 1000000"
  shows "seconds_exponent n \<le> 33"
proof (cases "1000000 \<le> n")
  case True
  from assms have "n div 1000000 < 2 ^ 34"
    by (simp add: less_mult_imp_div_less)
  then have "bit_length (n div 1000000) \<le> 34" by (rule bit_length_le)
  with True show ?thesis by (simp add: seconds_exponent_def)
next
  case False
  then show ?thesis by (simp add: seconds_exponent_def)
qed

text \<open>Rounding at 19 or more binary places keeps the whole second of a number of microseconds.\<close>

lemma floor_rounded:
  assumes d: "0 \<le> d" and P: "19 \<le> P"
  shows "\<lfloor>real_of_int (round_half_even (real_of_int d * 2 ^ P / 1000000)) / 2 ^ P\<rfloor>
           = d div 1000000"
proof -
  let ?y = "real_of_int d * 2 ^ P / 1000000"
  let ?m = "round_half_even ?y"
  let ?q = "d div 1000000"
  let ?r = "d mod 1000000"
  have pow: "(524288::real) \<le> 2 ^ P"
  proof -
    have "(2::real) ^ 19 \<le> 2 ^ P" using P by (intro power_increasing) simp_all
    then show ?thesis by simp
  qed
  have split: "real_of_int d = real_of_int ?q * 1000000 + real_of_int ?r"
  proof -
    have "real_of_int d = real_of_int (?q * 1000000 + ?r)"
      by (simp only: div_mult_mod_eq)
    also have "\<dots> = real_of_int ?q * 1000000 + real_of_int ?r"
      by (simp only: of_int_add of_int_mult of_int_numeral)
    finally show ?thesis .
  qed
  have y: "?y = real_of_int ?q * 2 ^ P + real_of_int ?r * 2 ^ P / 1000000"
    by (simp add: split field_simps)
  have r_bounds: "0 \<le> ?r" "?r \<le> 999999" by simp_all
  have lower: "real_of_int ?q * 2 ^ P \<le> real_of_int ?m"
  proof (cases "?r = 0")
    case True
    then have "?y = real_of_int (?q * 2 ^ P)" by (simp add: y)
    then have "?m = ?q * 2 ^ P" by (simp only: round_half_even_of_int)
    then show ?thesis by simp
  next
    case False
    with r_bounds have "1 \<le> ?r" by simp
    then have r1: "(1::real) \<le> real_of_int ?r" by simp
    have "1 * 2 ^ P \<le> real_of_int ?r * (2::real) ^ P"
      using r1 by (rule mult_right_mono) simp
    then have a: "2 ^ P / 1000000 \<le> real_of_int ?r * 2 ^ P / (1000000::real)"
      by (simp add: divide_right_mono)
    have b: "(1::real) / 2 \<le> 2 ^ P / 1000000" using pow by simp
    have "real_of_int ?q * 2 ^ P + 1 / 2 \<le> ?y"
      unfolding y using a b by linarith
    with round_half_even_bounds(2) [of ?y] show ?thesis by linarith
  qed
  have upper: "real_of_int ?m < (real_of_int ?q + 1) * 2 ^ P"
  proof -
    from r_bounds(2) have "real_of_int ?r \<le> 999999" by simp
    then have "real_of_int ?r * 2 ^ P \<le> 999999 * (2::real) ^ P"
      by (rule mult_right_mono) simp
    then have a: "real_of_int ?r * 2 ^ P / 1000000 \<le> 999999 * 2 ^ P / (1000000::real)"
      by (simp add: divide_right_mono)
    have b: "999999 * 2 ^ P / (1000000::real) = 2 ^ P - 2 ^ P / 1000000"
      by (simp add: field_simps)
    have c: "(1::real) / 2 < 2 ^ P / 1000000" using pow by simp
    have "?y + 1 / 2 < real_of_int ?q * 2 ^ P + 2 ^ P"
      unfolding y using a b c by linarith
    then have "?y + 1 / 2 < (real_of_int ?q + 1) * 2 ^ P"
      by (simp add: algebra_simps)
    with round_half_even_bounds(1) [of ?y] show ?thesis by linarith
  qed
  have pos: "(0::real) < 2 ^ P" by simp
  have "real_of_int ?q \<le> real_of_int ?m / 2 ^ P"
    using lower pos by (simp add: le_divide_eq)
  moreover have "real_of_int ?m / 2 ^ P < real_of_int ?q + 1"
    using upper pos by (simp add: divide_less_eq)
  ultimately show ?thesis by (simp add: floor_eq_iff)
qed

lemma total_seconds_floor:
  assumes "0 \<le> d" and "d < 2 ^ 34 * 1000000"
  shows "\<lfloor>total_seconds d\<rfloor> = d div 1000000" and "0 \<le> total_seconds d"
proof -
  show "\<lfloor>total_seconds d\<rfloor> = d div 1000000"
  proof (cases "d = 0")
    case True
    then show ?thesis by (simp add: total_seconds_def)
  next
    case False
    with assms(1) have pos: "0 < d" by simp
    from assms have "nat \<bar>d\<bar> < 2 ^ 34 * 1000000" by simp
    then have e: "seconds_exponent (nat \<bar>d\<bar>) \<le> 33" by (rule seconds_exponent_le)
    then have P: "19 \<le> nat (52 - seconds_exponent (nat \<bar>d\<bar>))" by simp
    from e pos have "total_seconds d =
        real_of_int (round_half_even
          (real_of_int d * 2 ^ nat (52 - seconds_exponent (nat \<bar>d\<bar>)) / 1000000))
        / 2 ^ nat (52 - seconds_exponent (nat \<bar>d\<bar>))"
      by (simp add: total_seconds_def Let_def)
    with floor_rounded [OF assms(1) P] show ?thesis by simp
  qed
  then have "0 \<le> \<lfloor>total_seconds d\<rfloor>" using assms(1) by simp
  then show "0 \<le> total_seconds d" by simp
qed

lemma py_int_of_int: "py_int (real_of_int k) = k"
  by (simp add: py_int_def)

lemma floor_div_numeral:
  "0 < b \<Longrightarrow> \<lfloor>x / real_of_int b\<rfloor> = \<lfloor>x\<rfloor> div b"
  by (simp add: floor_divide_real_eq_div)

lemma floor_py_mod:
  assumes "0 < b"
  shows "\<lfloor>py_mod x (real_of_int b)\<rfloor> = \<lfloor>x\<rfloor> mod b"
proof -
  have "py_mod x (real_of_int b) = x - real_of_int ((\<lfloor>x\<rfloor> div b) * b)"
    using assms by (simp add: py_mod_def floor_div_numeral)
  then have "\<lfloor>py_mod x (real_of_int b)\<rfloor> = \<lfloor>x\<rfloor> - (\<lfloor>x\<rfloor> div b) * b"
    by (simp only: floor_diff_of_int)
  then show ?thesis by (simp add: minus_div_mult_eq_mod)
qed

lemma hours_eq: "py_int (py_floordiv x 3600) = \<lfloor>x\<rfloor> div 3600"
  using floor_div_numeral [of 3600 x] by (simp add: py_floordiv_def py_int_of_int)

lemma minutes_eq: "py_int (py_floordiv (py_mod x 3600) 60) = \<lfloor>x\<rfloor> mod 3600 div 60"
  using floor_div_numeral [of 60 "py_mod x 3600"] floor_py_mod [of 3600 x]
  by (simp add: py_floordiv_def py_int_of_int)

lemma seconds_eq: "py_int (py_mod x 60) = \<lfloor>x\<rfloor> mod 60"
proof -
  have "0 \<le> \<lfloor>py_mod x 60\<rfloor>"
    using floor_py_mod [of 60 x] by simp
  then have "0 \<le> py_mod x 60" by simp
  then show ?thesis
    using floor_py_mod [of 60 x] by (simp add: py_int_def)
qed

lemma mod_div_swap:
  assumes "0 < b" and "0 < c"
  shows "(a mod (b * c)) div b = (a div b) mod (c::int)"
proof -
  have "a mod (b * c) = b * (a div b mod c) + a mod b"
    using assms(2) by (simp add: zmod_zmult2_eq)
  moreover have "(b * (a div b mod c) + a mod b) div b = a div b mod c + (a mod b) div b"
    using assms(1) by simp
  moreover have "(a mod b) div b = 0"
    using assms(1) by simp
  ultimately show ?thesis by simp
qed

lemma length_digits: "length (digits n) = (if n < 10 then 1 else length (digits (n div 10)) + 1)"
  by (subst digits.simps) simp

lemma length_digits_pos: "Suc 0 \<le> length (digits n)"
  by (subst digits.simps) simp

lemma format_02d_nonneg: "0 \<le> n \<Longrightarrow> format_02d n = pad2 (nat n)"
proof -
  assume n: "0 \<le> n"
  show ?thesis
  proof (cases "nat n < 10")
    case True
    then have "length (digits (nat n)) = 1" by (simp add: length_digits)
    with n True show ?thesis by (simp add: format_02d_def pad2_def)
  next
    case False
    then have "length (digits (nat n)) = length (digits (nat n div 10)) + 1"
      by (simp add: length_digits)
    with length_digits_pos [of "nat n div 10"] have "2 \<le> length (digits (nat n))" by linarith
    with n False show ?thesis by (simp add: format_02d_def pad2_def)
  qed
qed

lemma working_hours_of_bounded:
  assumes "0 \<le> d" and "d < 2 ^ 34 * 1000000"
  shows "working_hours_of d = spec_hh_mm_ss d"
proof -
  let ?s = "d div 1000000"
  have fl: "\<lfloor>total_seconds d\<rfloor> = ?s"
    using assms by (rule total_seconds_floor(1))
  have m: "?s mod 3600 div 60 = ?s div 60 mod 60"
  proof -
    have "(?s mod (60 * 60)) div 60 = (?s div 60) mod 60"
      by (rule mod_div_swap) simp_all
    then show ?thesis by simp
  qed
  from assms(1) have s0: "0 \<le> ?s" by simp
  have n1: "nat (?s div 3600) = nat ?s div 3600"
    using s0 by (simp add: nat_div_distrib)
  have n2: "nat (?s div 60 mod 60) = nat ?s div 60 mod 60"
    using s0 by (simp add: nat_div_distrib nat_mod_distrib)
  have n3: "nat (?s mod 60) = nat ?s mod 60"
    using s0 by (simp add: nat_mod_distrib)
  have p1: "0 \<le> ?s div 3600" using s0 by simp
  have p2: "0 \<le> ?s div 60 mod 60" by simp
  have p3: "0 \<le> ?s mod 60" by simp
  show ?thesis
    unfolding working_hours_of_def spec_hh_mm_ss_def Let_def hours_eq minutes_eq seconds_eq
      fl m usec_per_second_def
    by (simp add: format_02d_nonneg [OF p1] format_02d_nonneg [OF p2] format_02d_nonneg [OF p3]
        n1 n2 n3)
qed

text \<open>
  Claim C3, as the code has it. For a check-out that is not before the check-in and
  less than \<open>2 ^ 34\<close> seconds (about 544 years) after it, \<open>working_hours\<close> is the
  elapsed time \<open>check_out - check_in\<close>, cut (not rounded) to whole seconds and written
  as zero-padded \<open>HH:MM:SS\<close>, both in the controller and in \<open>HrAttendance.write\<close>;
  for a check-in at 2025-01-01 09:00:00 and a check-out at 2025-01-01 17:30:15 it is
  \<open>08:30:15\<close>.
\<close>

theorem working_hours_elapsed:
  assumes "check_in_utc \<le> check_out_utc"
    and "check_out_utc - check_in_utc < 2 ^ 34 * 1000000"
  shows "working_hours_of (check_out_utc - check_in_utc)
           = spec_hh_mm_ss (check_out_utc - check_in_utc)
       \<and> working_hours (write_check_out (Some check_out_utc) (r\<lparr>check_in := check_in_utc\<rparr>))
           = spec_hh_mm_ss (check_out_utc - check_in_utc)
       \<and> working_hours_of (mk_datetime 2025 1 1 17 30 15 0 - mk_datetime 2025 1 1 9 0 0 0)
           = ''08:30:15''"
proof -
  from assms(1) have d: "0 \<le> check_out_utc - check_in_utc" by simp
  have e: "mk_datetime 2025 1 1 17 30 15 0 - mk_datetime 2025 1 1 9 0 0 0 = 30615000000"
    by (simp add: mk_datetime_def usec_per_second_def)
  have "spec_hh_mm_ss 30615000000 = ''08:30:15''"
    by (simp add: spec_hh_mm_ss_def usec_per_second_def pad2_def digits.simps)
  then have ex: "working_hours_of (mk_datetime 2025 1 1 17 30 15 0 - mk_datetime 2025 1 1 9 0 0 0)
           = ''08:30:15''"
    by (simp add: e working_hours_of_bounded)
  show ?thesis
    using working_hours_of_bounded [OF d assms(2)] ex by (simp add: write_check_out_def)
qed

theorem working_hours_elapsed_witness:
  "mk_datetime 2025 1 1 9 0 0 0 \<le> mk_datetime 2025 1 1 17 30 15 999999
 \<and> mk_datetime 2025 1 1 17 30 15 999999 - mk_datetime 2025 1 1 9 0 0 0 < 2 ^ 34 * 1000000
 \<and> working_hours_of (mk_datetime 2025 1 1 17 30 15 999999 - mk_datetime 2025 1 1 9 0 0 0)
       = ''08:30:15''"
proof -
  have le: "mk_datetime 2025 1 1 9 0 0 0 \<le> mk_datetime 2025 1 1 17 30 15 999999"
    by (simp add: mk_datetime_def usec_per_second_def)
  have e: "mk_datetime 2025 1 1 17 30 15 999999 - mk_datetime 2025 1 1 9 0 0 0 = 30615999999"
    by (simp add: mk_datetime_def usec_per_second_def)
  have bound: "mk_datetime 2025 1 1 17 30 15 999999 - mk_datetime 2025 1 1 9 0 0 0
      < 2 ^ 34 * 1000000"
    by (simp add: e)
  have "spec_hh_mm_ss 30615999999 = ''08:30:15''"
    by (simp add: spec_hh_mm_ss_def usec_per_second_def pad2_def digits.simps)
  then show ?thesis
    using le bound working_hours_elapsed [OF le bound] by (simp add: e)
qed

text \<open>
  Claim C3 as stated fails. From 1400-01-01 00:00:00 to 2024-12-31 23:59:59.999999 the
  double \<open>total_seconds()\<close> is 19723132800.0, a whole second more than has passed, and
  \<open>working_hours\<close> is \<open>5478648:00:00\<close> where cutting to the second gives
  \<open>5478647:59:59\<close>.
\<close>

theorem working_hours_rounds_up:
  "mk_datetime 1400 1 1 0 0 0 0 \<le> mk_datetime 2024 12 31 23 59 59 999999
 \<and> total_seconds (mk_datetime 2024 12 31 23 59 59 999999 - mk_datetime 1400 1 1 0 0 0 0)
       = 19723132800
 \<and> working_hours_of (mk_datetime 2024 12 31 23 59 59 999999 - mk_datetime 1400 1 1 0 0 0 0)
       = ''5478648:00:00''
 \<and> spec_hh_mm_ss (mk_datetime 2024 12 31 23 59 59 999999 - mk_datetime 1400 1 1 0 0 0 0)
       = ''5478647:59:59''"
proof -
  have dur: "mk_datetime 2024 12 31 23 59 59 999999 - mk_datetime 1400 1 1 0 0 0 0
      = 19723132799999999"
    by (simp add: mk_datetime_def ymd2ord_def days_before_year_def days_before_month_def
        is_leap_def usec_per_day_def usec_per_second_def)
  have le: "mk_datetime 1400 1 1 0 0 0 0 \<le> mk_datetime 2024 12 31 23 59 59 999999"
    using dur by simp
  have "bit_length 19723132799 = 35"
    by (simp add: bit_length.simps)
  then have "seconds_exponent 19723132799999999 = 34"
    by (simp add: seconds_exponent_def)
  then have secs: "total_seconds 19723132799999999 = 19723132800"
    by (simp add: total_seconds_def round_half_even_def Let_def)
  have code: "working_hours_of 19723132799999999 = ''5478648:00:00''"
    by (simp add: working_hours_of_def secs hours_eq minutes_eq seconds_eq format_02d_def
        digits.simps Let_def)
  have spec: "spec_hh_mm_ss 19723132799999999 = ''5478647:59:59''"
    by (simp add: spec_hh_mm_ss_def usec_per_second_def pad2_def digits.simps)
  from le secs code spec show ?thesis by (simp only: dur)
qed

section \<open>Properties of the validation\<close>

lemma dict_get_absent: "k \<notin> fst ` set data \<Longrightarrow> dict_get data k = JNull"
proof -
  assume "k \<notin> fst ` set data"
  then have "k \<notin> fst ` set (rev data)" by simp
  then have "map_of (rev data) k = None" by (simp add: map_of_eq_None_iff del: set_rev)
  then show ?thesis by (simp add: dict_get_def)
qed

lemma toggle_required_fields:
  assumes "auth_user req = Some u" and "toggle_data_of (req_body req) = Some data"
    and "\<not> truthy (dict_get data ''latitude'') \<or> \<not> truthy (dict_get data ''longitude'')
         \<or> \<not> truthy (dict_get data ''camera_image'')"
  shows "toggle_validate X req d =
           Inl (Json_error 400
                  (Text (if \<not> truthy (dict_get data ''latitude'')
                            \<or> \<not> truthy (dict_get data ''longitude'')
                         then ''GPS coordinates are required for attendance''
                         else ''Camera photo is required for attendance'')), d)"
  using assms by (auto simp: toggle_validate_def Let_def)

lemma attendances_create_employee [simp]:
  "attendances (snd (create_employee u cid d)) = attendances d"
  by (simp add: create_employee_def Let_def)

lemma companies_create_employee [simp]:
  "companies (snd (create_employee u cid d)) = companies d"
  by (simp add: create_employee_def Let_def)

lemma attendances_toggle_employee [simp]:
  "attendances (snd (toggle_employee u cid d)) = attendances d"
  by (simp add: toggle_employee_def split: list.splits)

lemma attendances_toggle_office [simp]:
  "attendances (snd (toggle_office c d)) = attendances d"
  by (simp add: toggle_office_def Let_def set_company_coords_def)

lemma toggle_validate_attendances:
  "toggle_validate X req d = Inl (resp, d') \<Longrightarrow> attendances d' = attendances d"
  "toggle_validate X req d = Inr (v, d') \<Longrightarrow> attendances d' = attendances d"
proof -
  have a: "attendances d2 = attendances d"
    if "toggle_employee u cid d = (e, d1)" and "toggle_office c d1 = (p, d2)" for u cid e d1 c p d2
  proof -
    from that(1) have "attendances d1 = attendances d"
      using attendances_toggle_employee [of u cid d] by simp
    moreover from that(2) have "attendances d2 = attendances d1"
      using attendances_toggle_office [of c d1] by simp
    ultimately show ?thesis by simp
  qed
  show "toggle_validate X req d = Inl (resp, d') \<Longrightarrow> attendances d' = attendances d"
    by (auto simp: toggle_validate_def Let_def dest: a
        split: option.splits if_splits prod.splits sum.splits)
  show "toggle_validate X req d = Inr (v, d') \<Longrightarrow> attendances d' = attendances d"
    by (auto simp: toggle_validate_def Let_def dest: a
        split: option.splits if_splits prod.splits sum.splits)
qed

text \<open>
  Claim C7. A toggle request of an authenticated user whose body (an object, or a body
  read as the empty object) lacks the camera image, the latitude or the longitude, or
  has a falsy value there, gets a 400 response, and the store after the request is the
  store before it: no attendance and no employee record is created.
\<close>

theorem toggle_missing_field_rejected:
  assumes "auth_user req = Some u" and "toggle_data_of (req_body req) = Some data"
    and "\<exists>k \<in> {''latitude'', ''longitude'', ''camera_image''}.
            k \<notin> fst ` set data \<or> \<not> truthy (dict_get data k)"
  shows "status_code (fst (toggle_checkin_checkout X clk req d)) = 400
       \<and> snd (toggle_checkin_checkout X clk req d) = d"
proof -
  from assms(3) obtain k where k: "k \<in> {''latitude'', ''longitude'', ''camera_image''}"
    and "k \<notin> fst ` set data \<or> \<not> truthy (dict_get data k)" by blast
  then have "\<not> truthy (dict_get data k)"
    using dict_get_absent [of k data] by auto
  with k have "\<not> truthy (dict_get data ''latitude'') \<or> \<not> truthy (dict_get data ''longitude'')
         \<or> \<not> truthy (dict_get data ''camera_image'')" by auto
  from toggle_required_fields [OF assms(1,2) this, of X d] show ?thesis
    by (simp add: toggle_checkin_checkout_def)
qed

theorem toggle_missing_field_rejected_witness:
  "status_code (fst (toggle_checkin_checkout example_ext example_clock
      (example_request [(''latitude'', JStr ''-6.969182''), (''longitude'', JStr ''107.629251'')])
      (example_db []))) = 400
 \<and> snd (toggle_checkin_checkout example_ext example_clock
      (example_request [(''latitude'', JStr ''-6.969182''), (''longitude'', JStr ''107.629251'')])
      (example_db [])) = example_db []"
proof -
  let ?data = "[(''latitude'', JStr ''-6.969182''), (''longitude'', JStr ''107.629251'')]"
  have a: "auth_user (example_request ?data) = Some example_user"
    by (simp add: example_request_def)
  have b: "toggle_data_of (req_body (example_request ?data)) = Some ?data"
    by (simp add: example_request_def toggle_data_of_def)
  have c: "\<exists>k \<in> {''latitude'', ''longitude'', ''camera_image''}.
            k \<notin> fst ` set ?data \<or> \<not> truthy (dict_get ?data k)"
    by simp
  show ?thesis
    using toggle_missing_field_rejected [OF a b c] by simp
qed

text \<open>
  Claim C10. A toggle request of an authenticated user whose latitude or longitude is
  the JSON number 0 or the empty string is rejected with the 400 response
  ``GPS coordinates are required for attendance'', exactly as a request without
  coordinates is: presence is tested by truth value.
\<close>

theorem toggle_zero_coordinate_rejected:
  assumes "auth_user req = Some u" and "req_body req = Parsed (JObj data)"
    and "dict_get data ''latitude'' \<in> {JInt 0, JFloat 0, JStr ''''}
         \<or> dict_get data ''longitude'' \<in> {JInt 0, JFloat 0, JStr ''''}"
  shows "toggle_checkin_checkout X clk req d =
           (Json_error 400 (Text ''GPS coordinates are required for attendance''), d)
       \<and> toggle_checkin_checkout X clk req d =
           toggle_checkin_checkout X clk (req\<lparr>req_body := Parsed (JObj [])\<rparr>) d"
proof -
  from assms(2) have data: "toggle_data_of (req_body req) = Some data"
    by (simp add: toggle_data_of_def)
  from assms(3) have falsy:
    "\<not> truthy (dict_get data ''latitude'') \<or> \<not> truthy (dict_get data ''longitude'')
         \<or> \<not> truthy (dict_get data ''camera_image'')" by auto
  from assms(3) have gps:
    "\<not> truthy (dict_get data ''latitude'') \<or> \<not> truthy (dict_get data ''longitude'')" by auto
  have one: "toggle_checkin_checkout X clk req d =
           (Json_error 400 (Text ''GPS coordinates are required for attendance''), d)"
    using toggle_required_fields [OF assms(1) data falsy, of X d] gps
    by (simp add: toggle_checkin_checkout_def)
  have "toggle_checkin_checkout X clk (req\<lparr>req_body := Parsed (JObj [])\<rparr>) d =
           (Json_error 400 (Text ''GPS coordinates are required for attendance''), d)"
    using assms(1)
    by (simp add: toggle_checkin_checkout_def toggle_validate_def toggle_data_of_def dict_get_def)
  with one show ?thesis by simp
qed

theorem toggle_zero_coordinate_rejected_witness:
  "toggle_checkin_checkout example_ext example_clock
      (example_request (example_data (JInt 0) (JStr ''107.629251''))) (example_db []) =
     (Json_error 400 (Text ''GPS coordinates are required for attendance''), example_db [])"
proof -
  let ?data = "example_data (JInt 0) (JStr ''107.629251'')"
  have a: "auth_user (example_request ?data) = Some example_user"
    by (simp add: example_request_def)
  have b: "req_body (example_request ?data) = Parsed (JObj ?data)"
    by (simp add: example_request_def)
  have c: "dict_get ?data ''latitude'' \<in> {JInt 0, JFloat 0, JStr ''''}
         \<or> dict_get ?data ''longitude'' \<in> {JInt 0, JFloat 0, JStr ''''}"
    by (simp add: example_data_def dict_get_def)
  show ?thesis
    using toggle_zero_coordinate_rejected [OF a b c] by simp
qed

section \<open>Properties of the geofence\<close>

lemma example_validate:
  "toggle_validate example_ext
     (example_request (example_data (JStr ''-6.969182'') (JStr ''107.629251''))) (example_db rs)
   = Inr (\<lparr>v_employee = example_employee, v_latitude = JStr ''-6.969182'',
           v_longitude = JStr ''107.629251'', v_camera_image = JStr ''aGVsbG8='',
           v_distance = 0\<rparr>, example_db rs)"
  by (simp add: toggle_validate_def example_request_def example_data_def example_db_def
      example_ext_def example_user_def example_employee_def example_company_def
      toggle_data_of_def dict_get_def toggle_employee_def employees_of_user_def
      find_company_def toggle_office_def or_default_def toggle_geofence_def
      distance_to_office_def is_within_radius_def Let_def)

lemma toggle_office_coords:
  "toggle_office c d =
     ((or_default (latitude c) (-6.969182), or_default (longitude c) 107.629251), d)"
  by (simp add: toggle_office_def or_default_def Let_def)

lemma is_within_radius_iff:
  assumes "to_float X lat = Some a" and "to_float X lon = Some b"
    and "geodesic X (a, b) (office_lat, office_lon) = Some distance"
  shows "is_within_radius X lat lon office_lat office_lon radius_m \<longleftrightarrow> distance \<le> radius_m"
  using assms by (simp add: is_within_radius_def)

lemma toggle_geofence_distance:
  assumes "to_float X lat = Some a" and "to_float X lon = Some b"
    and "geodesic X (a, b) (office_lat, office_lon) = Some distance"
  shows "toggle_geofence X lat lon office_lat office_lon =
           (if distance \<le> 100000 then Inr distance
            else Inl (Json_error 400 (Outside_office distance)))"
  using assms
  by (simp add: is_within_radius_def toggle_geofence_def distance_to_office_def)

lemma toggle_at_distance:
  assumes "auth_user req = Some u" and "toggle_data_of (req_body req) = Some data"
    and "truthy (dict_get data ''latitude'')" and "truthy (dict_get data ''longitude'')"
    and "truthy (dict_get data ''camera_image'')"
    and "toggle_employee u (env_company req) d = (e, d1)"
    and "find_company d1 (case company_id e of Some c \<Rightarrow> c | None \<Rightarrow> env_company req) = Some c"
    and "to_float X (dict_get data ''latitude'') = Some a"
    and "to_float X (dict_get data ''longitude'') = Some b"
    and "geodesic X (a, b)
           (or_default (latitude c) (-6.969182), or_default (longitude c) 107.629251)
         = Some distance"
  shows "toggle_checkin_checkout X clk req d =
     (if distance \<le> 100000
      then toggle_cycle clk
             \<lparr>v_employee = e, v_latitude = dict_get data ''latitude'',
              v_longitude = dict_get data ''longitude'',
              v_camera_image = dict_get data ''camera_image'', v_distance = distance\<rparr> d1
      else (Json_error 400 (Outside_office distance), d1))"
proof -
  have "toggle_geofence X (dict_get data ''latitude'') (dict_get data ''longitude'')
          (or_default (latitude c) (-6.969182)) (or_default (longitude c) 107.629251) =
           (if distance \<le> 100000 then Inr distance
            else Inl (Json_error 400 (Outside_office distance)))"
    using assms(8-10) by (rule toggle_geofence_distance)
  with assms(1-7) show ?thesis
    by (simp add: toggle_checkin_checkout_def toggle_validate_def toggle_office_coords Let_def)
qed

lemma check_in_at_distance:
  assumes "auth_user req = Some u" and "strict_data_of (req_body req) = Dict data"
    and "checkin_employee u (env_company req) d = (e, d1)"
    and "find_company d1 (case company_id e of Some c \<Rightarrow> c | None \<Rightarrow> env_company req) = Some c"
    and "to_float X (dict_get data ''latitude'') = Some a"
    and "to_float X (dict_get data ''longitude'') = Some b"
    and "geodesic X (a, b)
           (or_default (latitude c) (-6.986682), or_default (longitude c) 107.637303)
         = Some distance"
  shows "check_in_endpoint X clk req d =
     (if distance \<le> 100000
      then check_in_create clk e data distance True d1
      else (Json_error 400 (Outside_office distance), d1))"
proof -
  have "check_in_distance X (dict_get data ''latitude'') (dict_get data ''longitude'') c
      = (distance, distance \<le> 100000)"
    using assms(5-7)
    by (simp add: check_in_distance_def distance_to_office_def is_within_radius_def Let_def)
  with assms(1-4) show ?thesis
    by (simp add: check_in_endpoint_def Let_def)
qed


lemmas example_defs =
  example_request_def example_data_def example_db_def example_ext_def example_far_ext_def
  example_user_def example_employee_def example_company_def



section \<open>Properties of the attendance cycle\<close>

lemma in_day_iff:
  "(day_start k \<le> t \<and> t < day_start (k + 1)) \<longleftrightarrow> date_of t = k"
  unfolding day_start_def date_of_def usec_per_day_def by auto

lemma in_today_iff: "in_today today r \<longleftrightarrow> date_of (check_in r) = today"
  by (simp add: in_today_def in_day_iff)

lemma latest_None_iff: "latest rs = None \<longleftrightarrow> rs = []"
  by (induction rs) (auto split: option.splits)

lemma latest_in_set: "latest rs = Some r \<Longrightarrow> r \<in> set rs"
  by (induction rs arbitrary: r) (auto split: option.splits if_splits)

lemma today_attendance_None_iff:
  "today_attendance d eid today = None \<longleftrightarrow>
     (\<forall>r \<in> set (attendances d). employee_id r = eid \<longrightarrow> date_of (check_in r) \<noteq> today)"
  by (auto simp: today_attendance_def latest_None_iff filter_empty_conv in_today_iff)

lemma today_attendance_SomeD:
  assumes "today_attendance d eid today = Some r"
  shows "r \<in> set (attendances d)" "employee_id r = eid" "date_of (check_in r) = today"
proof -
  from assms have "r \<in> set (filter (\<lambda>r. employee_id r = eid \<and> in_today today r) (attendances d))"
    unfolding today_attendance_def by (rule latest_in_set)
  then show "r \<in> set (attendances d)" "employee_id r = eid" "date_of (check_in r) = today"
    by (simp_all add: in_today_iff)
qed

lemma today_attendance_cong:
  "attendances d' = attendances d \<Longrightarrow> today_attendance d' eid today = today_attendance d eid today"
  by (simp add: today_attendance_def)

lemma sql_rowcount_pos:
  "r \<in> set rs \<Longrightarrow> check_out r = None \<Longrightarrow> sql_rowcount True (att_id r) rs \<noteq> 0"
  by (auto simp: sql_rowcount_def sql_hit_def filter_empty_conv)

lemma sql_update_checkout_closes:
  "r \<in> set rs \<Longrightarrow> check_out r = None \<Longrightarrow>
     r\<lparr>check_out := Some t, working_hours := wh\<rparr> \<in> set (sql_update_checkout True (att_id r) t wh rs)"
  by (force simp: sql_update_checkout_def sql_hit_def)

lemma toggle_validate_fields:
  assumes "toggle_validate X req d = Inr (v, d2)"
    and "toggle_data_of (req_body req) = Some data"
  shows "v_latitude v = dict_get data ''latitude''"
    and "v_longitude v = dict_get data ''longitude''"
    and "v_camera_image v = dict_get data ''camera_image''"
  using assms
  by (auto simp: toggle_validate_def Let_def
      split: option.splits if_splits prod.splits sum.splits)

lemma toggle_cycle_check_in:
  assumes "today_attendance d (emp_id (v_employee v)) (date_of (now_naive clk)) = None"
  shows "toggle_cycle clk v d =
     (Toggle_ok \<lparr>action = ''check_in'', event_time = now_local clk, hours = None,
                 is_checked_in = True, distance_from_office = v_distance v\<rparr>,
      d\<lparr>attendances := attendances d @
          [\<lparr>att_id = fresh_id (map att_id (attendances d)),
            employee_id = emp_id (v_employee v), check_in = now_local clk,
            check_out = None, working_hours = ''00:00:00'',
            selfie_photo = v_camera_image v, att_latitude = v_latitude v,
            att_longitude = v_longitude v\<rparr>]\<rparr>)"
  using assms by (simp add: toggle_cycle_def create_attendance_def Let_def)

lemma toggle_cycle_check_out:
  assumes "today_attendance d (emp_id (v_employee v)) (date_of (now_naive clk)) = Some r"
    and "check_out r = None"
  shows "toggle_cycle clk v d =
     (Toggle_ok \<lparr>action = ''check_out'', event_time = now_local clk,
                 hours = Some (working_hours_of (now_local clk - check_in r)),
                 is_checked_in = False, distance_from_office = v_distance v\<rparr>,
      d\<lparr>attendances := sql_update_checkout True (att_id r) (now_local clk)
                          (working_hours_of (now_local clk - check_in r)) (attendances d)\<rparr>)"
proof -
  from assms(1) have "r \<in> set (attendances d)" by (rule today_attendance_SomeD)
  then have "sql_rowcount True (att_id r) (attendances d) \<noteq> 0"
    using assms(2) by (rule sql_rowcount_pos)
  with assms show ?thesis by (simp add: toggle_cycle_def Let_def)
qed

lemma toggle_cycle_done:
  assumes "today_attendance d (emp_id (v_employee v)) (date_of (now_naive clk)) = Some r"
    and "check_out r = Some t"
  shows "status_code (fst (toggle_cycle clk v d)) = 400" and "snd (toggle_cycle clk v d) = d"
  using assms by (simp_all add: toggle_cycle_def Let_def)

text \<open>
  One toggle of a request that has passed validation, by what the search of the day
  finds in the store.
\<close>

lemma toggle_step:
  assumes "toggle_validate X req d = Inr (v, d2)"
  shows "attendances d2 = attendances d
    \<and> (\<forall>data. toggle_data_of (req_body req) = Some data \<longrightarrow>
          v_latitude v = dict_get data ''latitude''
        \<and> v_longitude v = dict_get data ''longitude''
        \<and> v_camera_image v = dict_get data ''camera_image'')
    \<and> ((\<forall>r \<in> set (attendances d).
            employee_id r = emp_id (v_employee v) \<longrightarrow>
            date_of (check_in r) \<noteq> date_of (now_naive clk)) \<longrightarrow>
        toggle_checkin_checkout X clk req d =
          (Toggle_ok \<lparr>action = ''check_in'', event_time = now_local clk, hours = None,
                      is_checked_in = True, distance_from_office = v_distance v\<rparr>,
           d2\<lparr>attendances := attendances d @
               [\<lparr>att_id = fresh_id (map att_id (attendances d)),
                 employee_id = emp_id (v_employee v), check_in = now_local clk,
                 check_out = None, working_hours = ''00:00:00'',
                 selfie_photo = v_camera_image v, att_latitude = v_latitude v,
                 att_longitude = v_longitude v\<rparr>]\<rparr>))
    \<and> (\<forall>r. today_attendance d (emp_id (v_employee v)) (date_of (now_naive clk)) = Some r
             \<and> check_out r = None \<longrightarrow>
        toggle_checkin_checkout X clk req d =
          (Toggle_ok \<lparr>action = ''check_out'', event_time = now_local clk,
                      hours = Some (working_hours_of (now_local clk - check_in r)),
                      is_checked_in = False, distance_from_office = v_distance v\<rparr>,
           d2\<lparr>attendances := sql_update_checkout True (att_id r) (now_local clk)
                               (working_hours_of (now_local clk - check_in r)) (attendances d)\<rparr>)
        \<and> r\<lparr>check_out := Some (now_local clk),
             working_hours := working_hours_of (now_local clk - check_in r)\<rparr>
            \<in> set (attendances (snd (toggle_checkin_checkout X clk req d))))
    \<and> (\<forall>r t. today_attendance d (emp_id (v_employee v)) (date_of (now_naive clk)) = Some r
             \<and> check_out r = Some t \<longrightarrow>
        status_code (fst (toggle_checkin_checkout X clk req d)) = 400
        \<and> snd (toggle_checkin_checkout X clk req d) = d2)"
proof -
  let ?eid = "emp_id (v_employee v)"
  let ?today = "date_of (now_naive clk)"
  have atts: "attendances d2 = attendances d"
    using assms by (rule toggle_validate_attendances(2))
  have same: "today_attendance d2 ?eid ?today = today_attendance d ?eid ?today"
    using atts by (rule today_attendance_cong)
  have run: "toggle_checkin_checkout X clk req d = toggle_cycle clk v d2"
    using assms by (simp add: toggle_checkin_checkout_def)
  have fields: "\<forall>data. toggle_data_of (req_body req) = Some data \<longrightarrow>
          v_latitude v = dict_get data ''latitude''
        \<and> v_longitude v = dict_get data ''longitude''
        \<and> v_camera_image v = dict_get data ''camera_image''"
    using toggle_validate_fields [OF assms] by blast
  have first: "toggle_checkin_checkout X clk req d =
          (Toggle_ok \<lparr>action = ''check_in'', event_time = now_local clk, hours = None,
                      is_checked_in = True, distance_from_office = v_distance v\<rparr>,
           d2\<lparr>attendances := attendances d @
               [\<lparr>att_id = fresh_id (map att_id (attendances d)),
                 employee_id = ?eid, check_in = now_local clk,
                 check_out = None, working_hours = ''00:00:00'',
                 selfie_photo = v_camera_image v, att_latitude = v_latitude v,
                 att_longitude = v_longitude v\<rparr>]\<rparr>)"
    if "\<forall>r \<in> set (attendances d). employee_id r = ?eid \<longrightarrow> date_of (check_in r) \<noteq> ?today"
  proof -
    from that have "today_attendance d2 ?eid ?today = None"
      by (simp add: same today_attendance_None_iff)
    from toggle_cycle_check_in [OF this] show ?thesis
      by (simp add: run atts)
  qed
  have second: "toggle_checkin_checkout X clk req d =
          (Toggle_ok \<lparr>action = ''check_out'', event_time = now_local clk,
                      hours = Some (working_hours_of (now_local clk - check_in r)),
                      is_checked_in = False, distance_from_office = v_distance v\<rparr>,
           d2\<lparr>attendances := sql_update_checkout True (att_id r) (now_local clk)
                               (working_hours_of (now_local clk - check_in r)) (attendances d)\<rparr>)
        \<and> r\<lparr>check_out := Some (now_local clk),
             working_hours := working_hours_of (now_local clk - check_in r)\<rparr>
            \<in> set (attendances (snd (toggle_checkin_checkout X clk req d)))"
    if found: "today_attendance d ?eid ?today = Some r" and "check_out r = None" for r
  proof -
    from found have f2: "today_attendance d2 ?eid ?today = Some r" by (simp add: same)
    from found have "r \<in> set (attendances d)" by (rule today_attendance_SomeD)
    from sql_update_checkout_closes [OF this that(2)] toggle_cycle_check_out [OF f2 that(2)]
    show ?thesis by (simp add: run atts)
  qed
  have third: "status_code (fst (toggle_checkin_checkout X clk req d)) = 400
        \<and> snd (toggle_checkin_checkout X clk req d) = d2"
    if found: "today_attendance d ?eid ?today = Some r" and "check_out r = Some t" for r t
  proof -
    from found have f2: "today_attendance d2 ?eid ?today = Some r" by (simp add: same)
    from toggle_cycle_done [OF f2 that(2)] show ?thesis by (simp add: run)
  qed
  from atts fields first second third show ?thesis by blast
qed

section \<open>The day of the attendance cycle\<close>

lemma example_dates:
  "date_of (mk_datetime 2024 12 31 18 0 0 0) = 739251"
  "date_of (mk_datetime 2025 1 1 1 0 0 0) = 739252"
  "date_of (mk_datetime 2025 1 1 18 0 0 0) = 739252"
  "date_of (mk_datetime 2025 1 1 18 5 0 0) = 739252"
  "date_of (mk_datetime 2025 1 1 18 5 0 0 + hours_td 7) = 739253"
  "date_of (mk_datetime 2025 1 2 1 0 0 0) = 739253"
  "wib_date (mk_datetime 2024 12 31 18 0 0 0) = 739252"
  "wib_date (mk_datetime 2025 1 1 1 0 0 0) = 739252"
  "wib_date (mk_datetime 2025 1 1 18 0 0 0) = 739253"
  "wib_date (mk_datetime 2025 1 1 18 5 0 0) = 739253"
  "wib_date (mk_datetime 2025 1 2 1 0 0 0) = 739253"
  by (simp_all add: wib_date_def hours_td_def date_of_def mk_datetime_def ymd2ord_def
      days_before_year_def days_before_month_def is_leap_def usec_per_day_def
      usec_per_second_def)

lemma toggle_cycle_length:
  "length (attendances (snd (toggle_cycle clk v d))) = Suc (length (attendances d)) \<longleftrightarrow>
     today_attendance d (emp_id (v_employee v)) (date_of (now_naive clk)) = None"
  by (simp add: toggle_cycle_def create_attendance_def sql_update_checkout_def Let_def
      split: option.splits)

lemma toggle_cycle_stamps:
  assumes "r \<in> set (attendances (snd (toggle_cycle clk v d)))" and "r \<notin> set (attendances d)"
  shows "check_in r = now_local clk \<or> check_out r = Some (now_local clk)"
proof (cases "today_attendance d (emp_id (v_employee v)) (date_of (now_naive clk))")
  case None
  with assms show ?thesis
    by (auto simp: toggle_cycle_def create_attendance_def Let_def)
next
  case (Some r0)
  with assms show ?thesis
    by (auto simp: toggle_cycle_def sql_update_checkout_def Let_def split: if_splits)
qed

text \<open>
  Claim C4, as the code has it. The day of the toggle is the date of the server's naive
  clock reading \<open>datetime.now()\<close>: a record is today's exactly when its stored
  \<open>check_in\<close>, compared as it is stored, has that date, and a new record is created
  exactly when the employee has no such record. The Jakarta clock only supplies the
  timestamps that are written, converted to UTC.
\<close>

theorem toggle_day_is_server_date:
  "(today_attendance d eid (date_of (now_naive clk)) = None \<longleftrightarrow>
      (\<forall>r \<in> set (attendances d).
          employee_id r = eid \<longrightarrow> date_of (check_in r) \<noteq> date_of (now_naive clk)))
 \<and> (\<forall>r. today_attendance d eid (date_of (now_naive clk)) = Some r \<longrightarrow>
          r \<in> set (attendances d) \<and> employee_id r = eid
        \<and> date_of (check_in r) = date_of (now_naive clk))
 \<and> (length (attendances (snd (toggle_cycle clk v d))) = Suc (length (attendances d)) \<longleftrightarrow>
      (\<forall>r \<in> set (attendances d).
          employee_id r = emp_id (v_employee v) \<longrightarrow>
          date_of (check_in r) \<noteq> date_of (now_naive clk)))
 \<and> (\<forall>r \<in> set (attendances (snd (toggle_cycle clk v d))).
        r \<notin> set (attendances d) \<longrightarrow>
        check_in r = now_local clk \<or> check_out r = Some (now_local clk))"
proof -
  have a: "today_attendance d eid (date_of (now_naive clk)) = None \<longleftrightarrow>
      (\<forall>r \<in> set (attendances d).
          employee_id r = eid \<longrightarrow> date_of (check_in r) \<noteq> date_of (now_naive clk))"
    by (rule today_attendance_None_iff)
  have b: "\<forall>r. today_attendance d eid (date_of (now_naive clk)) = Some r \<longrightarrow>
          r \<in> set (attendances d) \<and> employee_id r = eid
        \<and> date_of (check_in r) = date_of (now_naive clk)"
    using today_attendance_SomeD by blast
  have c: "length (attendances (snd (toggle_cycle clk v d))) = Suc (length (attendances d)) \<longleftrightarrow>
      (\<forall>r \<in> set (attendances d).
          employee_id r = emp_id (v_employee v) \<longrightarrow>
          date_of (check_in r) \<noteq> date_of (now_naive clk))"
    by (simp only: toggle_cycle_length today_attendance_None_iff)
  have e: "\<forall>r \<in> set (attendances (snd (toggle_cycle clk v d))).
        r \<notin> set (attendances d) \<longrightarrow>
        check_in r = now_local clk \<or> check_out r = Some (now_local clk)"
    using toggle_cycle_stamps by blast
  from a b c e show ?thesis by blast
qed

theorem toggle_day_is_server_date_witness:
  "today_attendance
     (example_db [example_attendance 1 (mk_datetime 2025 1 1 1 0 0 0)
                    (Some (mk_datetime 2025 1 1 10 0 0 0))])
     1 (date_of (now_naive (utc_clock (mk_datetime 2025 1 1 18 0 0 0))))
   = Some (example_attendance 1 (mk_datetime 2025 1 1 1 0 0 0)
             (Some (mk_datetime 2025 1 1 10 0 0 0)))
 \<and> date_of (check_in (example_attendance 1 (mk_datetime 2025 1 1 1 0 0 0)
                         (Some (mk_datetime 2025 1 1 10 0 0 0))))
   = date_of (now_naive (utc_clock (mk_datetime 2025 1 1 18 0 0 0)))
 \<and> today_attendance
     (example_db [example_attendance 1 (mk_datetime 2024 12 31 18 0 0 0) None])
     1 (date_of (now_naive (utc_clock (mk_datetime 2025 1 1 1 0 0 0))))
   = None"
proof -
  let ?r = "example_attendance 1 (mk_datetime 2025 1 1 1 0 0 0)
              (Some (mk_datetime 2025 1 1 10 0 0 0))"
  let ?clk = "utc_clock (mk_datetime 2025 1 1 18 0 0 0)"
  let ?q = "example_attendance 1 (mk_datetime 2024 12 31 18 0 0 0) None"
  let ?clk2 = "utc_clock (mk_datetime 2025 1 1 1 0 0 0)"
  have found: "today_attendance (example_db [?r]) 1 (date_of (now_naive ?clk)) = Some ?r"
    by (simp add: today_attendance_def example_db_def example_attendance_def utc_clock_def
        in_today_iff example_dates)
  have other: "\<forall>r \<in> set (attendances (example_db [?q])).
      employee_id r = 1 \<longrightarrow> date_of (check_in r) \<noteq> date_of (now_naive ?clk2)"
    by (simp add: example_db_def example_attendance_def utc_clock_def example_dates)
  show ?thesis
    using found other
      toggle_day_is_server_date [of "example_db [?r]" 1 ?clk]
      toggle_day_is_server_date [of "example_db [?q]" 1 ?clk2]
    by blast
qed

text \<open>
  Claim C4 as stated fails. On a server whose clock shows UTC, at 2025-01-01 18:00 UTC
  (01:00 of 2 January in Jakarta) the record of 1 January is still today's and the
  toggle refuses a new cycle; at 2025-01-01 01:00 UTC (08:00 in Jakarta) an open record
  of 01:00 Jakarta time the same day is not today's and the toggle checks in again. On
  a server whose clock shows Jakarta time, a record checked in five minutes earlier,
  at 01:00 Jakarta time, is not today's either.
\<close>

theorem toggle_day_not_jakarta_date:
  "today_attendance
     (example_db [example_attendance 1 (mk_datetime 2025 1 1 1 0 0 0)
                    (Some (mk_datetime 2025 1 1 10 0 0 0))])
     1 (date_of (now_naive (utc_clock (mk_datetime 2025 1 1 18 0 0 0))))
   \<noteq> spec_today_attendance
     (example_db [example_attendance 1 (mk_datetime 2025 1 1 1 0 0 0)
                    (Some (mk_datetime 2025 1 1 10 0 0 0))])
     1 (now_local (utc_clock (mk_datetime 2025 1 1 18 0 0 0)))
 \<and> status_code (fst (toggle_checkin_checkout example_ext
       (utc_clock (mk_datetime 2025 1 1 18 0 0 0))
       (example_request (example_data (JStr ''-6.969182'') (JStr ''107.629251'')))
       (example_db [example_attendance 1 (mk_datetime 2025 1 1 1 0 0 0)
                      (Some (mk_datetime 2025 1 1 10 0 0 0))]))) = 400
 \<and> spec_today_attendance
     (example_db [example_attendance 1 (mk_datetime 2024 12 31 18 0 0 0) None])
     1 (now_local (utc_clock (mk_datetime 2025 1 1 1 0 0 0)))
   = Some (example_attendance 1 (mk_datetime 2024 12 31 18 0 0 0) None)
 \<and> fst (toggle_checkin_checkout example_ext
       (utc_clock (mk_datetime 2025 1 1 1 0 0 0))
       (example_request (example_data (JStr ''-6.969182'') (JStr ''107.629251'')))
       (example_db [example_attendance 1 (mk_datetime 2024 12 31 18 0 0 0) None]))
   = Toggle_ok \<lparr>action = ''check_in'', event_time = mk_datetime 2025 1 1 1 0 0 0,
                 hours = None, is_checked_in = True, distance_from_office = 0\<rparr>
 \<and> spec_today_attendance
     (example_db [example_attendance 1 (mk_datetime 2025 1 1 18 0 0 0) None])
     1 (now_local (wib_clock (mk_datetime 2025 1 1 18 5 0 0)))
   = Some (example_attendance 1 (mk_datetime 2025 1 1 18 0 0 0) None)
 \<and> today_attendance
     (example_db [example_attendance 1 (mk_datetime 2025 1 1 18 0 0 0) None])
     1 (date_of (now_naive (wib_clock (mk_datetime 2025 1 1 18 5 0 0))))
   = None"
proof -
  have run: "toggle_checkin_checkout example_ext clk
       (example_request (example_data (JStr ''-6.969182'') (JStr ''107.629251'')))
       (example_db rs)
     = toggle_cycle clk
         \<lparr>v_employee = example_employee, v_latitude = JStr ''-6.969182'',
          v_longitude = JStr ''107.629251'', v_camera_image = JStr ''aGVsbG8='',
          v_distance = 0\<rparr> (example_db rs)" for clk rs
    by (simp add: toggle_checkin_checkout_def example_validate)
  show ?thesis
    unfolding run
    by (simp add: toggle_cycle_def today_attendance_def spec_today_attendance_def
        example_db_def example_attendance_def example_employee_def utc_clock_def
        wib_clock_def in_today_iff example_dates create_attendance_def Let_def)
qed

section \<open>Coordinates that do not convert to numbers\<close>

lemma toggle_validate_status:
  "toggle_validate X req d = Inl (resp, d') \<Longrightarrow> status_code resp \<in> {400, 401, 500}"
  by (auto simp: toggle_validate_def toggle_geofence_def Let_def
      split: option.splits if_splits prod.splits sum.splits)

lemma toggle_validate_parsed:
  assumes "toggle_validate X req d = Inr (v, d2)"
    and "toggle_data_of (req_body req) = Some data"
  shows "to_float X (dict_get data ''latitude'') \<noteq> None"
    and "to_float X (dict_get data ''longitude'') \<noteq> None"
  using assms
  by (auto simp: toggle_validate_def toggle_geofence_def distance_to_office_def Let_def
      split: option.splits if_splits prod.splits sum.splits)

lemma toggle_geofence_unparsable:
  assumes "to_float X lat = None \<or> to_float X lon = None"
  shows "toggle_geofence X lat lon office_lat office_lon =
           Inl (Json_error 500 (Text ''Error validating location''))"
  using assms
  by (auto simp: toggle_geofence_def distance_to_office_def split: option.splits)

lemma check_in_unparsable:
  assumes "to_float X (dict_get data ''latitude'') = None
           \<or> to_float X (dict_get data ''longitude'') = None"
    and "auth_user req = Some u" and "strict_data_of (req_body req) = Dict data"
    and "checkin_employee u (env_company req) d = (e, d1)"
    and "find_company d1 (case company_id e of Some c \<Rightarrow> c | None \<Rightarrow> env_company req) = Some c"
    and "existing_attendance d1 (emp_id e) (date_of (now_naive clk)) = None"
  shows "check_in_endpoint X clk req d =
     (Checkin_ok \<lparr>ci_id = fresh_id (map att_id (attendances d1)), ci_check_in = now_local clk,
                  ci_latitude = dict_get data ''latitude'',
                  ci_longitude = dict_get data ''longitude'',
                  ci_distance = 0, ci_within_radius = True\<rparr>,
      d1\<lparr>attendances := attendances d1 @
          [\<lparr>att_id = fresh_id (map att_id (attendances d1)), employee_id = emp_id e,
            check_in = now_local clk, check_out = None, working_hours = ''00:00:00'',
            selfie_photo = dict_get data ''selfie_photo'',
            att_latitude = dict_get data ''latitude'',
            att_longitude = dict_get data ''longitude''\<rparr>]\<rparr>)"
proof -
  from assms(1) have "check_in_distance X (dict_get data ''latitude'')
      (dict_get data ''longitude'') c = (0, True)"
    by (auto simp: check_in_distance_def distance_to_office_def Let_def split: option.splits)
  with assms(2-) show ?thesis
    by (simp add: check_in_endpoint_def check_in_create_def Let_def create_attendance_def)
qed

text \<open>
  Claim C6, as the code has it. When a submitted coordinate does not convert to a
  number, the toggle ends with an error response and the attendance records are as
  before; its distance block gives the 500 response ``Error validating location''.
  The check-in endpoint does not block: it goes on with distance 0 and
  \<open>within_radius\<close> true, and creates the record unless the employee has an open
  record today.
\<close>

theorem unparsable_coordinates:
  assumes "to_float X (dict_get data ''latitude'') = None
           \<or> to_float X (dict_get data ''longitude'') = None"
  shows "(toggle_data_of (req_body req) = Some data \<longrightarrow>
            status_code (fst (toggle_checkin_checkout X clk req d)) \<in> {400, 401, 500}
          \<and> attendances (snd (toggle_checkin_checkout X clk req d)) = attendances d)
       \<and> (\<forall>office_lat office_lon.
            toggle_geofence X (dict_get data ''latitude'') (dict_get data ''longitude'')
              office_lat office_lon
            = Inl (Json_error 500 (Text ''Error validating location'')))
       \<and> (\<forall>u e d1 c.
            auth_user req = Some u \<and> strict_data_of (req_body req) = Dict data
          \<and> checkin_employee u (env_company req) d = (e, d1)
          \<and> find_company d1 (case company_id e of Some c \<Rightarrow> c | None \<Rightarrow> env_company req)
              = Some c
          \<and> existing_attendance d1 (emp_id e) (date_of (now_naive clk)) = None \<longrightarrow>
            check_in_endpoint X clk req d =
              (Checkin_ok \<lparr>ci_id = fresh_id (map att_id (attendances d1)),
                           ci_check_in = now_local clk,
                           ci_latitude = dict_get data ''latitude'',
                           ci_longitude = dict_get data ''longitude'',
                           ci_distance = 0, ci_within_radius = True\<rparr>,
               d1\<lparr>attendances := attendances d1 @
                   [\<lparr>att_id = fresh_id (map att_id (attendances d1)), employee_id = emp_id e,
                     check_in = now_local clk, check_out = None,
                     working_hours = ''00:00:00'',
                     selfie_photo = dict_get data ''selfie_photo'',
                     att_latitude = dict_get data ''latitude'',
                     att_longitude = dict_get data ''longitude''\<rparr>]\<rparr>))"
proof -
  have toggle: "status_code (fst (toggle_checkin_checkout X clk req d)) \<in> {400, 401, 500}
          \<and> attendances (snd (toggle_checkin_checkout X clk req d)) = attendances d"
    if data: "toggle_data_of (req_body req) = Some data"
  proof (cases "toggle_validate X req d")
    case (Inl out)
    obtain resp d' where out: "out = (resp, d')" by (cases out)
    from Inl out have "status_code resp \<in> {400, 401, 500}" and "attendances d' = attendances d"
      using toggle_validate_status [of X req d resp d']
        toggle_validate_attendances(1) [of X req d resp d'] by simp_all
    with Inl out show ?thesis by (simp add: toggle_checkin_checkout_def)
  next
    case (Inr ok)
    obtain v d2 where "ok = (v, d2)" by (cases ok)
    with Inr toggle_validate_parsed [of X req d v d2 data] data assms show ?thesis by auto
  qed
  from toggle toggle_geofence_unparsable [OF assms] check_in_unparsable [OF assms]
  show ?thesis by blast
qed

theorem unparsable_coordinates_witness:
  "to_float example_ext (dict_get (example_data (JStr ''abc'') (JStr ''107.629251'')) ''latitude'')
     = None
 \<and> status_code (fst (toggle_checkin_checkout example_ext example_clock
       (example_request (example_data (JStr ''abc'') (JStr ''107.629251''))) (example_db [])))
     \<in> {400, 401, 500}
 \<and> attendances (snd (toggle_checkin_checkout example_ext example_clock
       (example_request (example_data (JStr ''abc'') (JStr ''107.629251''))) (example_db [])))
     = []
 \<and> toggle_checkin_checkout example_ext example_clock
       (example_request (example_data (JStr ''abc'') (JStr ''107.629251''))) (example_db [])
     = (Json_error 500 (Text ''Error validating location''), example_db [])"
proof -
  let ?data = "example_data (JStr ''abc'') (JStr ''107.629251'')"
  have bad: "to_float example_ext (dict_get ?data ''latitude'') = None"
    by (simp add: example_data_def dict_get_def example_ext_def)
  then have hyp: "to_float example_ext (dict_get ?data ''latitude'') = None
           \<or> to_float example_ext (dict_get ?data ''longitude'') = None" ..
  have body: "toggle_data_of (req_body (example_request ?data)) = Some ?data"
    by (simp add: example_request_def toggle_data_of_def)
  have run: "toggle_validate example_ext (example_request ?data) (example_db [])
     = Inl (Json_error 500 (Text ''Error validating location''), example_db [])"
    by (simp add: toggle_validate_def example_request_def example_data_def example_db_def
        example_ext_def example_user_def example_employee_def example_company_def
        toggle_data_of_def dict_get_def toggle_employee_def employees_of_user_def
        find_company_def toggle_office_def or_default_def toggle_geofence_def
        distance_to_office_def Let_def)
  have "attendances (example_db []) = []" by (simp add: example_db_def)
  then show ?thesis
    using bad body unparsable_coordinates [OF hyp, of "example_request ?data" example_clock
        "example_db []"]
    by (simp add: toggle_checkin_checkout_def run)
qed

text \<open>
  Claim C6 as stated fails for the check-in endpoint: with the latitude \<open>abc\<close> it
  answers 200 and creates the attendance record.
\<close>

theorem check_in_fails_open:
  "to_float example_ext (JStr ''abc'') = None
 \<and> check_in_endpoint example_ext example_clock
       (example_request (example_data (JStr ''abc'') (JStr ''107.629251''))) (example_db [])
     = (Checkin_ok \<lparr>ci_id = 1, ci_check_in = mk_datetime 2025 1 1 1 0 0 0,
                    ci_latitude = JStr ''abc'', ci_longitude = JStr ''107.629251'',
                    ci_distance = 0, ci_within_radius = True\<rparr>,
        example_db [\<lparr>att_id = 1, employee_id = 1, check_in = mk_datetime 2025 1 1 1 0 0 0,
                      check_out = None, working_hours = ''00:00:00'', selfie_photo = JNull,
                      att_latitude = JStr ''abc'', att_longitude = JStr ''107.629251''\<rparr>])"
  by (simp add: check_in_endpoint_def example_request_def example_data_def example_db_def
      example_ext_def example_user_def example_employee_def example_company_def
      example_clock_def utc_clock_def strict_data_of_def dict_get_def checkin_employee_def
      employees_of_user_def find_company_def or_default_def distance_to_office_def
      check_in_distance_def check_in_create_def existing_attendance_def
      create_attendance_def fresh_id_def Let_def)

section \<open>One open record per employee and day\<close>

lemma date_of_mono: "t \<le> t' \<Longrightarrow> date_of t \<le> date_of t'"
  by (simp add: date_of_def usec_per_day_def zdiv_mono1)

lemma fold_max_ge:
  fixes a :: nat
  shows "a \<le> fold max xs a" and "x \<in> set xs \<Longrightarrow> x \<le> fold max xs a"
proof (induction xs arbitrary: a)
  case Nil
  { case 1 show ?case by simp }
  { case 2 then show ?case by simp }
next
  case (Cons y ys)
  { case 1
    have "a \<le> max y a" by simp
    also have "\<dots> \<le> fold max ys (max y a)" by (rule Cons.IH(1))
    finally show ?case by simp }
  { case 2
    show ?case
    proof (cases "x = y")
      case True
      have "y \<le> max y a" by simp
      also have "\<dots> \<le> fold max ys (max y a)" by (rule Cons.IH(1))
      finally show ?thesis using True by simp
    next
      case False
      with 2 have "x \<in> set ys" by simp
      then have "x \<le> fold max ys (max y a)" by (rule Cons.IH(2))
      then show ?thesis by simp
    qed }
qed

lemma fresh_id_notin: "fresh_id ids \<notin> set ids"
proof
  assume "fresh_id ids \<in> set ids"
  then have "fresh_id ids \<le> fold max ids 0" by (rule fold_max_ge(2))
  then show False by (simp add: fresh_id_def)
qed

lemma length_filter_map_le:
  "(\<And>x. x \<in> set xs \<Longrightarrow> P (f x) \<Longrightarrow> P x) \<Longrightarrow>
     length (filter P (map f xs)) \<le> length (filter P xs)"
  by (induction xs) auto

lemma one_open_update:
  assumes "one_open_per_day rs"
  shows "one_open_per_day (sql_update_checkout g aid t wh rs)"
  unfolding one_open_per_day_def
proof (intro allI)
  fix eid day
  let ?P = "\<lambda>r. employee_id r = eid \<and> check_out r = None \<and> date_of (check_in r) = day"
  let ?f = "\<lambda>r. if sql_hit g aid r then r\<lparr>check_out := Some t, working_hours := wh\<rparr> else r"
  have "length (filter ?P (map ?f rs)) \<le> length (filter ?P rs)"
    by (rule length_filter_map_le) (auto split: if_splits)
  also have "\<dots> \<le> 1"
    using assms by (simp add: one_open_per_day_def open_on_def)
  finally show "length (open_on (sql_update_checkout g aid t wh rs) eid day) \<le> 1"
    by (simp add: open_on_def sql_update_checkout_def)
qed

lemma one_open_append:
  assumes "one_open_per_day rs"
    and "\<And>r. r \<in> set rs \<Longrightarrow> employee_id r = employee_id new \<Longrightarrow> check_out r = None \<Longrightarrow>
           date_of (check_in r) \<noteq> date_of (check_in new)"
  shows "one_open_per_day (rs @ [new])"
  unfolding one_open_per_day_def
proof (intro allI)
  fix eid day
  show "length (open_on (rs @ [new]) eid day) \<le> 1"
  proof (cases "employee_id new = eid \<and> check_out new = None \<and> date_of (check_in new) = day")
    case True
    with assms(2) have "open_on rs eid day = []"
      by (auto simp: open_on_def filter_empty_conv)
    with True show ?thesis by (simp add: open_on_def)
  next
    case False
    then have "open_on (rs @ [new]) eid day = open_on rs eid day"
      by (auto simp: open_on_def)
    with assms(1) show ?thesis by (simp add: one_open_per_day_def)
  qed
qed

lemma closed_kept_refl: "closed_kept rs rs"
  by (simp add: closed_kept_def)

lemma closed_kept_append: "closed_kept rs (rs @ [new])"
  by (simp add: closed_kept_def)

lemma closed_kept_update_guarded: "closed_kept rs (sql_update_checkout True aid t wh rs)"
  unfolding closed_kept_def sql_update_checkout_def
proof (intro ballI impI)
  fix r assume "r \<in> set rs" and "check_out r \<noteq> None"
  then have "\<not> sql_hit True aid r" by (simp add: sql_hit_def)
  with \<open>r \<in> set rs\<close>
  show "r \<in> set (map (\<lambda>r. if sql_hit True aid r
                            then r\<lparr>check_out := Some t, working_hours := wh\<rparr> else r) rs)"
    by force
qed

lemma closed_kept_update_by_id:
  assumes "ids_unique rs" and "r0 \<in> set rs" and "check_out r0 = None"
  shows "closed_kept rs (sql_update_checkout False (att_id r0) t wh rs)"
  unfolding closed_kept_def sql_update_checkout_def
proof (intro ballI impI)
  fix r assume r: "r \<in> set rs" and closed: "check_out r \<noteq> None"
  from assms(1) have "inj_on att_id (set rs)"
    by (simp add: ids_unique_def distinct_map)
  with r assms(2) have "att_id r = att_id r0 \<Longrightarrow> r = r0"
    by (auto dest: inj_onD)
  with closed assms(3) have "\<not> sql_hit False (att_id r0) r"
    by (auto simp: sql_hit_def)
  with r
  show "r \<in> set (map (\<lambda>r. if sql_hit False (att_id r0) r
                            then r\<lparr>check_out := Some t, working_hours := wh\<rparr> else r) rs)"
    by force
qed

lemma ids_unique_append:
  "ids_unique rs \<Longrightarrow> att_id new = fresh_id (map att_id rs) \<Longrightarrow> ids_unique (rs @ [new])"
  using fresh_id_notin [of "map att_id rs"] by (simp add: ids_unique_def)

lemma ids_unique_update:
  "ids_unique rs \<Longrightarrow> ids_unique (sql_update_checkout g aid t wh rs)"
proof -
  have "map att_id (sql_update_checkout g aid t wh rs) = map att_id rs"
    by (induction rs) (simp_all add: sql_update_checkout_def)
  then show "ids_unique rs \<Longrightarrow> ids_unique (sql_update_checkout g aid t wh rs)"
    by (simp add: ids_unique_def)
qed

lemma none_after_mono: "none_after rs t \<Longrightarrow> t \<le> t' \<Longrightarrow> none_after rs t'"
  by (fastforce simp: none_after_def)

lemma none_after_append:
  "none_after rs t \<Longrightarrow> check_in new \<le> t \<Longrightarrow> none_after (rs @ [new]) t"
  by (simp add: none_after_def)

lemma none_after_update:
  "none_after rs t' \<Longrightarrow> none_after (sql_update_checkout g aid t wh rs) t'"
  by (auto simp: none_after_def sql_update_checkout_def)

lemma existing_attendance_None_iff:
  "existing_attendance d eid today = None \<longleftrightarrow>
     (\<forall>r \<in> set (attendances d).
        employee_id r = eid \<and> check_out r = None \<longrightarrow>
        \<not> (day_start today \<le> check_in r \<and> check_in r \<le> day_last_second today))"
  by (auto simp: existing_attendance_def latest_None_iff filter_empty_conv)

lemma active_attendance_SomeD:
  assumes "active_attendance d eid = Some r"
  shows "r \<in> set (attendances d)" and "check_out r = None"
proof -
  from assms
  have "r \<in> set (filter (\<lambda>r. employee_id r = eid \<and> check_out r = None) (attendances d))"
    unfolding active_attendance_def by (rule latest_in_set)
  then show "r \<in> set (attendances d)" and "check_out r = None" by simp_all
qed

lemma attendances_checkin_employee [simp]:
  "attendances (snd (checkin_employee u cid d)) = attendances d"
  by (simp add: checkin_employee_def clear_user_def split: list.splits)

lemma toggle_cycle_effect:
  "\<exists>eff. applies clk True (attendances d) eff (attendances (snd (toggle_cycle clk v d)))
     \<and> (\<forall>new. eff = Created new \<longrightarrow>
           (\<forall>r \<in> set (attendances d). employee_id r = employee_id new \<longrightarrow>
               date_of (check_in r) \<noteq> date_of (now_naive clk)))"
proof (cases "today_attendance d (emp_id (v_employee v)) (date_of (now_naive clk))")
  case None
  let ?new = "\<lparr>att_id = fresh_id (map att_id (attendances d)),
            employee_id = emp_id (v_employee v), check_in = now_local clk,
            check_out = None, working_hours = ''00:00:00'',
            selfie_photo = v_camera_image v, att_latitude = v_latitude v,
            att_longitude = v_longitude v\<rparr>"
  from None have "applies clk True (attendances d) (Created ?new)
      (attendances (snd (toggle_cycle clk v d)))"
    by (simp add: toggle_cycle_check_in)
  moreover from None have "\<forall>r \<in> set (attendances d). employee_id r = employee_id ?new \<longrightarrow>
               date_of (check_in r) \<noteq> date_of (now_naive clk)"
    by (simp add: today_attendance_None_iff)
  ultimately show ?thesis by blast
next
  case (Some r)
  show ?thesis
  proof (cases "check_out r")
    case None
    from Some have "r \<in> set (attendances d)" by (rule today_attendance_SomeD)
    with None have "applies clk True (attendances d)
        (Closed r (working_hours_of (now_local clk - check_in r)))
        (attendances (snd (toggle_cycle clk v d)))"
      by (simp add: toggle_cycle_check_out [OF Some None])
    then show ?thesis by blast
  next
    case (Some t)
    with \<open>today_attendance d (emp_id (v_employee v)) (date_of (now_naive clk)) = Some r\<close>
    have "applies clk True (attendances d) Unchanged (attendances (snd (toggle_cycle clk v d)))"
      by (simp add: toggle_cycle_done)
    then show ?thesis by blast
  qed
qed

lemma toggle_effect:
  "\<exists>eff. applies clk True (attendances d) eff
            (attendances (snd (toggle_checkin_checkout X clk req d)))
     \<and> (\<forall>new. eff = Created new \<longrightarrow>
           (\<forall>r \<in> set (attendances d). employee_id r = employee_id new \<longrightarrow>
               date_of (check_in r) \<noteq> date_of (now_naive clk)))"
proof (cases "toggle_validate X req d")
  case (Inl out)
  obtain resp d' where "out = (resp, d')" by (cases out)
  with Inl have "attendances (snd (toggle_checkin_checkout X clk req d)) = attendances d"
    using toggle_validate_attendances(1) [of X req d resp d']
    by (simp add: toggle_checkin_checkout_def)
  then have "applies clk True (attendances d) Unchanged
            (attendances (snd (toggle_checkin_checkout X clk req d)))" by simp
  then show ?thesis by blast
next
  case (Inr ok)
  obtain v d2 where ok: "ok = (v, d2)" by (cases ok)
  with Inr have atts: "attendances d2 = attendances d"
    using toggle_validate_attendances(2) [of X req d v d2] by simp
  from Inr ok have "toggle_checkin_checkout X clk req d = toggle_cycle clk v d2"
    by (simp add: toggle_checkin_checkout_def)
  with toggle_cycle_effect [of clk d2 v] atts show ?thesis by simp
qed

lemma check_in_create_effect:
  "\<exists>eff. applies clk True (attendances d) eff
            (attendances (snd (check_in_create clk e data distance inside d)))
     \<and> (\<forall>new. eff = Created new \<longrightarrow>
           (\<forall>r \<in> set (attendances d).
               employee_id r = employee_id new \<and> check_out r = None \<longrightarrow>
               \<not> (day_start (date_of (now_naive clk)) \<le> check_in r
                  \<and> check_in r \<le> day_last_second (date_of (now_naive clk)))))"
proof (cases "existing_attendance d (emp_id e) (date_of (now_naive clk))")
  case (Some r)
  then have "applies clk True (attendances d) Unchanged
            (attendances (snd (check_in_create clk e data distance inside d)))"
    by (simp add: check_in_create_def)
  then show ?thesis by blast
next
  case None
  let ?new = "\<lparr>att_id = fresh_id (map att_id (attendances d)), employee_id = emp_id e,
            check_in = now_local clk, check_out = None, working_hours = ''00:00:00'',
            selfie_photo = dict_get data ''selfie_photo'',
            att_latitude = dict_get data ''latitude'',
            att_longitude = dict_get data ''longitude''\<rparr>"
  from None have "applies clk True (attendances d) (Created ?new)
            (attendances (snd (check_in_create clk e data distance inside d)))"
    by (simp add: check_in_create_def create_attendance_def Let_def)
  moreover from None have "\<forall>r \<in> set (attendances d).
               employee_id r = employee_id ?new \<and> check_out r = None \<longrightarrow>
               \<not> (day_start (date_of (now_naive clk)) \<le> check_in r
                  \<and> check_in r \<le> day_last_second (date_of (now_naive clk)))"
    by (simp add: existing_attendance_None_iff)
  ultimately show ?thesis by blast
qed

lemma check_in_endpoint_cases:
  "attendances (snd (check_in_endpoint X clk req d)) = attendances d
   \<or> (\<exists>e data distance inside d1. attendances d1 = attendances d
        \<and> check_in_endpoint X clk req d = check_in_create clk e data distance inside d1)"
proof (cases "auth_user req")
  case None
  then show ?thesis by (simp add: check_in_endpoint_def)
next
  case (Some u)
  show ?thesis
  proof (cases "strict_data_of (req_body req)")
    case Invalid_json
    with Some show ?thesis by (simp add: check_in_endpoint_def)
  next
    case Raises
    with Some show ?thesis by (simp add: check_in_endpoint_def)
  next
    case (Dict data)
    obtain e d1 where emp: "checkin_employee u (env_company req) d = (e, d1)"
      by (cases "checkin_employee u (env_company req) d")
    then have atts: "attendances d1 = attendances d"
      using attendances_checkin_employee [of u "env_company req" d] by simp
    let ?cid = "case company_id e of Some c \<Rightarrow> c | None \<Rightarrow> env_company req"
    show ?thesis
    proof (cases "find_company d1 ?cid")
      case None
      with Some Dict emp atts show ?thesis by (simp add: check_in_endpoint_def)
    next
      case (Some c)
      obtain distance inside where dist: "check_in_distance X (dict_get data ''latitude'')
          (dict_get data ''longitude'') c = (distance, inside)"
        by (cases "check_in_distance X (dict_get data ''latitude'') (dict_get data ''longitude'') c")
      show ?thesis
      proof (cases inside)
        case True
        with \<open>auth_user req = Some u\<close> Dict emp Some dist
        have "check_in_endpoint X clk req d = check_in_create clk e data distance inside d1"
          by (simp add: check_in_endpoint_def)
        with atts show ?thesis by blast
      next
        case False
        with \<open>auth_user req = Some u\<close> Dict emp Some dist atts
        show ?thesis by (simp add: check_in_endpoint_def)
      qed
    qed
  qed
qed

lemma check_in_effect:
  "\<exists>eff. applies clk True (attendances d) eff
            (attendances (snd (check_in_endpoint X clk req d)))
     \<and> (\<forall>new. eff = Created new \<longrightarrow>
           (\<forall>r \<in> set (attendances d).
               employee_id r = employee_id new \<and> check_out r = None \<longrightarrow>
               \<not> (day_start (date_of (now_naive clk)) \<le> check_in r
                  \<and> check_in r \<le> day_last_second (date_of (now_naive clk)))))"
  using check_in_endpoint_cases [of X clk req d]
proof (elim disjE exE conjE)
  assume "attendances (snd (check_in_endpoint X clk req d)) = attendances d"
  then have "applies clk True (attendances d) Unchanged
            (attendances (snd (check_in_endpoint X clk req d)))" by simp
  then show ?thesis by blast
next
  fix e data distance inside d1
  assume "attendances d1 = attendances d"
    and "check_in_endpoint X clk req d = check_in_create clk e data distance inside d1"
  with check_in_create_effect [of clk d1 e data distance inside] show ?thesis by simp
qed

lemma check_out_active_effect:
  "\<exists>eff. applies clk False (attendances d) eff
            (attendances (snd (check_out_active clk e d)))
     \<and> (\<forall>new. eff \<noteq> Created new)"
proof (cases "active_attendance d (emp_id e)")
  case None
  then have "applies clk False (attendances d) Unchanged
            (attendances (snd (check_out_active clk e d)))"
    by (simp add: check_out_active_def)
  then show ?thesis by blast
next
  case (Some r)
  from active_attendance_SomeD [OF Some]
  have "applies clk False (attendances d)
          (Closed r (working_hours_of (now_local clk - check_in r)))
          (attendances (snd (check_out_active clk e d)))"
    by (simp add: check_out_active_def Some Let_def)
  then show ?thesis by blast
qed

lemma check_out_endpoint_cases:
  "snd (check_out_endpoint clk req d) = d
   \<or> (\<exists>e. check_out_endpoint clk req d = check_out_active clk e d)"
  by (auto simp: check_out_endpoint_def split: option.splits loaded.splits)

lemma check_out_effect:
  "\<exists>eff. applies clk False (attendances d) eff
            (attendances (snd (check_out_endpoint clk req d)))
     \<and> (\<forall>new. eff \<noteq> Created new)"
  using check_out_endpoint_cases [of clk req d]
proof (elim disjE exE)
  assume "snd (check_out_endpoint clk req d) = d"
  then have "applies clk False (attendances d) Unchanged
            (attendances (snd (check_out_endpoint clk req d)))" by simp
  then show ?thesis by blast
next
  fix e
  assume "check_out_endpoint clk req d = check_out_active clk e d"
  with check_out_active_effect [of clk d e] show ?thesis by simp
qed

lemma same_day_sandwich:
  assumes "check_in r \<le> t1" and "t1 \<le> t2" and "date_of (check_in r) = date_of t2"
  shows "date_of t1 = date_of t2"
proof -
  from assms(1) have "date_of (check_in r) \<le> date_of t1" by (rule date_of_mono)
  moreover from assms(2) have "date_of t1 \<le> date_of t2" by (rule date_of_mono)
  ultimately show ?thesis using assms(3) by simp
qed

lemma applies_preserves:
  assumes inv: "one_open_per_day rs" and ids: "ids_unique rs"
    and na: "none_after rs (now_naive clk)" and le: "now_naive clk \<le> now_local clk"
    and ap: "applies clk g rs eff rs'"
    and fresh: "\<And>new r. eff = Created new \<Longrightarrow> r \<in> set rs \<Longrightarrow>
        employee_id r = employee_id new \<Longrightarrow> check_out r = None \<Longrightarrow>
        date_of (check_in r) \<noteq> date_of (now_local clk)"
  shows "one_open_per_day rs' \<and> closed_kept rs rs' \<and> ids_unique rs'
       \<and> none_after rs' (now_local clk)"
proof -
  from na le have na': "none_after rs (now_local clk)" by (rule none_after_mono)
  show ?thesis
  proof (cases eff)
    case Unchanged
    with ap inv ids na' show ?thesis by (simp add: closed_kept_refl)
  next
    case (Created new)
    with ap have rs': "rs' = rs @ [new]" and id: "att_id new = fresh_id (map att_id rs)"
      and ci: "check_in new = now_local clk" and co: "check_out new = None" by simp_all
    have "one_open_per_day (rs @ [new])"
      using inv
    proof (rule one_open_append)
      fix r assume "r \<in> set rs" "employee_id r = employee_id new" "check_out r = None"
      with fresh [OF Created] show "date_of (check_in r) \<noteq> date_of (check_in new)"
        by (simp add: ci)
    qed
    moreover have "ids_unique (rs @ [new])" using ids id by (rule ids_unique_append)
    moreover have "none_after (rs @ [new]) (now_local clk)"
      using na' by (rule none_after_append) (simp add: ci)
    ultimately show ?thesis by (simp add: rs' closed_kept_append)
  next
    case (Closed r wh)
    with ap have r: "r \<in> set rs" and op: "check_out r = None"
      and rs': "rs' = sql_update_checkout g (att_id r) (now_local clk) wh rs" by simp_all
    have "closed_kept rs (sql_update_checkout g (att_id r) (now_local clk) wh rs)"
    proof (cases g)
      case True
      then show ?thesis by (simp add: closed_kept_update_guarded)
    next
      case False
      with closed_kept_update_by_id [OF ids r op] show ?thesis by simp
    qed
    with inv ids na' show ?thesis
      by (simp add: rs' one_open_update ids_unique_update none_after_update)
  qed
qed

text \<open>
  Claim C2, as the code has it. Take a table whose rows have distinct ids and no
  check-in later than the server's clock reading, and a server clock that is not ahead
  of the instant of the request. Then the toggle, the check-out and, unless the request
  falls after 23:59:59 of its day, the check-in keep at most one open record per
  employee and calendar day of the stored check-in; and each of the three keeps every
  closed record as it is, keeps the ids distinct and stores no check-in later than the
  instant of the request.
\<close>

theorem attendance_invariant_preserved:
  assumes "one_open_per_day (attendances d)" and "ids_unique (attendances d)"
    and "none_after (attendances d) (now_naive clk)" and "now_naive clk \<le> now_local clk"
    and "op = Check_in \<longrightarrow> now_local clk \<le> day_last_second (date_of (now_local clk))"
  shows "one_open_per_day (attendances (snd (handle X clk op req d)))
       \<and> closed_kept (attendances d) (attendances (snd (handle X clk op req d)))
       \<and> ids_unique (attendances (snd (handle X clk op req d)))
       \<and> none_after (attendances (snd (handle X clk op req d))) (now_local clk)"
proof (cases op)
  case Toggle
  from toggle_effect [of clk d X req] obtain eff
    where ap: "applies clk True (attendances d) eff
            (attendances (snd (toggle_checkin_checkout X clk req d)))"
      and cond: "\<And>new r. eff = Created new \<Longrightarrow> r \<in> set (attendances d) \<Longrightarrow>
           employee_id r = employee_id new \<Longrightarrow>
           date_of (check_in r) \<noteq> date_of (now_naive clk)"
    by blast
  have "one_open_per_day (attendances (snd (toggle_checkin_checkout X clk req d)))
       \<and> closed_kept (attendances d) (attendances (snd (toggle_checkin_checkout X clk req d)))
       \<and> ids_unique (attendances (snd (toggle_checkin_checkout X clk req d)))
       \<and> none_after (attendances (snd (toggle_checkin_checkout X clk req d))) (now_local clk)"
    using assms(1-4) ap
  proof (rule applies_preserves)
    fix new r
    assume eff: "eff = Created new" and r: "r \<in> set (attendances d)"
      and emp: "employee_id r = employee_id new" and "check_out r = None"
    show "date_of (check_in r) \<noteq> date_of (now_local clk)"
    proof
      assume same: "date_of (check_in r) = date_of (now_local clk)"
      from assms(3) r have "check_in r \<le> now_naive clk" by (simp add: none_after_def)
      from same_day_sandwich [OF this assms(4) same] same cond [OF eff r emp]
      show False by simp
    qed
  qed
  with Toggle show ?thesis by simp
next
  case Check_in
  with assms(5) have gap: "now_local clk \<le> day_last_second (date_of (now_local clk))" by simp
  from check_in_effect [of clk d X req] obtain eff
    where ap: "applies clk True (attendances d) eff
            (attendances (snd (check_in_endpoint X clk req d)))"
      and cond: "\<And>new r. eff = Created new \<Longrightarrow> r \<in> set (attendances d) \<Longrightarrow>
           employee_id r = employee_id new \<Longrightarrow> check_out r = None \<Longrightarrow>
           \<not> (day_start (date_of (now_naive clk)) \<le> check_in r
              \<and> check_in r \<le> day_last_second (date_of (now_naive clk)))"
    by blast
  have "one_open_per_day (attendances (snd (check_in_endpoint X clk req d)))
       \<and> closed_kept (attendances d) (attendances (snd (check_in_endpoint X clk req d)))
       \<and> ids_unique (attendances (snd (check_in_endpoint X clk req d)))
       \<and> none_after (attendances (snd (check_in_endpoint X clk req d))) (now_local clk)"
    using assms(1-4) ap
  proof (rule applies_preserves)
    fix new r
    assume eff: "eff = Created new" and r: "r \<in> set (attendances d)"
      and emp: "employee_id r = employee_id new" and op: "check_out r = None"
    show "date_of (check_in r) \<noteq> date_of (now_local clk)"
    proof
      assume same: "date_of (check_in r) = date_of (now_local clk)"
      from assms(3) r have before: "check_in r \<le> now_naive clk" by (simp add: none_after_def)
      from same_day_sandwich [OF this assms(4) same]
      have today: "date_of (now_naive clk) = date_of (now_local clk)" .
      from same have "day_start (date_of (now_local clk)) \<le> check_in r"
        using in_day_iff [of "date_of (now_local clk)" "check_in r"] by simp
      moreover from before assms(4) gap
      have "check_in r \<le> day_last_second (date_of (now_local clk))" by simp
      ultimately show False using cond [OF eff r emp op] today by simp
    qed
  qed
  with Check_in show ?thesis by simp
next
  case Check_out
  from check_out_effect [of clk d req] obtain eff
    where ap: "applies clk False (attendances d) eff
            (attendances (snd (check_out_endpoint clk req d)))"
      and cond: "\<And>new. eff \<noteq> Created new"
    by blast
  have "one_open_per_day (attendances (snd (check_out_endpoint clk req d)))
       \<and> closed_kept (attendances d) (attendances (snd (check_out_endpoint clk req d)))
       \<and> ids_unique (attendances (snd (check_out_endpoint clk req d)))
       \<and> none_after (attendances (snd (check_out_endpoint clk req d))) (now_local clk)"
    using assms(1-4) ap
  proof (rule applies_preserves)
    fix new and r :: attendance
    assume "eff = Created new"
    with cond [of new] show "date_of (check_in r) \<noteq> date_of (now_local clk)" by simp
  qed
  with Check_out show ?thesis by simp
qed

theorem attendance_invariant_preserved_witness:
  "one_open_per_day (attendances (example_db [example_attendance 1
       (mk_datetime 2024 12 31 1 0 0 0) (Some (mk_datetime 2024 12 31 9 0 0 0))]))
 \<and> ids_unique (attendances (example_db [example_attendance 1
       (mk_datetime 2024 12 31 1 0 0 0) (Some (mk_datetime 2024 12 31 9 0 0 0))]))
 \<and> none_after (attendances (example_db [example_attendance 1
       (mk_datetime 2024 12 31 1 0 0 0) (Some (mk_datetime 2024 12 31 9 0 0 0))]))
       (now_naive example_clock)
 \<and> now_naive example_clock \<le> now_local example_clock
 \<and> now_local example_clock \<le> day_last_second (date_of (now_local example_clock))
 \<and> one_open_per_day (attendances (snd (handle example_ext example_clock Check_in
       (example_request (example_data (JStr ''-6.969182'') (JStr ''107.629251'')))
       (example_db [example_attendance 1
          (mk_datetime 2024 12 31 1 0 0 0) (Some (mk_datetime 2024 12 31 9 0 0 0))]))))
 \<and> closed_kept (attendances (example_db [example_attendance 1
          (mk_datetime 2024 12 31 1 0 0 0) (Some (mk_datetime 2024 12 31 9 0 0 0))]))
       (attendances (snd (handle example_ext example_clock Check_in
       (example_request (example_data (JStr ''-6.969182'') (JStr ''107.629251'')))
       (example_db [example_attendance 1
          (mk_datetime 2024 12 31 1 0 0 0) (Some (mk_datetime 2024 12 31 9 0 0 0))]))))"
proof -
  let ?r = "example_attendance 1 (mk_datetime 2024 12 31 1 0 0 0)
              (Some (mk_datetime 2024 12 31 9 0 0 0))"
  let ?d = "example_db [?r]"
  have a: "one_open_per_day (attendances ?d)"
    by (simp add: one_open_per_day_def open_on_def example_db_def)
  have b: "ids_unique (attendances ?d)"
    by (simp add: ids_unique_def example_db_def)
  have c: "none_after (attendances ?d) (now_naive example_clock)"
    by (simp add: none_after_def example_db_def example_attendance_def example_clock_def
        utc_clock_def mk_datetime_def ymd2ord_def days_before_year_def days_before_month_def
        is_leap_def usec_per_day_def usec_per_second_def)
  have e: "now_naive example_clock \<le> now_local example_clock"
    by (simp add: example_clock_def utc_clock_def)
  have f: "now_local example_clock \<le> day_last_second (date_of (now_local example_clock))"
    by (simp add: example_clock_def utc_clock_def day_last_second_def date_of_def
        mk_datetime_def ymd2ord_def days_before_year_def days_before_month_def
        is_leap_def usec_per_day_def usec_per_second_def)
  then have g: "Check_in = Check_in \<longrightarrow>
      now_local example_clock \<le> day_last_second (date_of (now_local example_clock))" by simp
  show ?thesis
    using a b c e f attendance_invariant_preserved [OF a b c e g, of example_ext
        "example_request (example_data (JStr ''-6.969182'') (JStr ''107.629251''))"]
    by blast
qed

text \<open>
  Claim C2 as stated fails. A check-in at 23:59:59.6 does not see the open record of
  23:59:59.2 of the same day, because its search ends at 23:59:59, and adds a second
  open record of that day. And by the Jakarta calendar: on a server whose clock shows
  UTC, the toggle at 08:00 Jakarta time of 2 January does not see the open record of
  01:00 Jakarta time of that day, stored under 1 January, and adds a second open record.
\<close>

theorem second_open_record_same_day:
  "one_open_per_day (attendances (example_db [example_attendance 1
       (mk_datetime 2025 1 1 23 59 59 200000) None]))
 \<and> length (open_on (attendances (snd (handle example_ext
       (utc_clock (mk_datetime 2025 1 1 23 59 59 600000)) Check_in
       (example_request (example_data (JStr ''-6.969182'') (JStr ''107.629251'')))
       (example_db [example_attendance 1 (mk_datetime 2025 1 1 23 59 59 200000) None]))))
     1 739252) = 2
 \<and> \<not> one_open_per_day (attendances (snd (handle example_ext
       (utc_clock (mk_datetime 2025 1 1 23 59 59 600000)) Check_in
       (example_request (example_data (JStr ''-6.969182'') (JStr ''107.629251'')))
       (example_db [example_attendance 1 (mk_datetime 2025 1 1 23 59 59 200000) None]))))
 \<and> one_open_per_wib_day (attendances (example_db [example_attendance 1
       (mk_datetime 2025 1 1 18 0 0 0) None]))
 \<and> length (open_on_wib (attendances (snd (handle example_ext
       (utc_clock (mk_datetime 2025 1 2 1 0 0 0)) Toggle
       (example_request (example_data (JStr ''-6.969182'') (JStr ''107.629251'')))
       (example_db [example_attendance 1 (mk_datetime 2025 1 1 18 0 0 0) None]))))
     1 739253) = 2
 \<and> \<not> one_open_per_wib_day (attendances (snd (handle example_ext
       (utc_clock (mk_datetime 2025 1 2 1 0 0 0)) Toggle
       (example_request (example_data (JStr ''-6.969182'') (JStr ''107.629251'')))
       (example_db [example_attendance 1 (mk_datetime 2025 1 1 18 0 0 0) None]))))"
proof -
  let ?req = "example_request (example_data (JStr ''-6.969182'') (JStr ''107.629251''))"
  let ?t1 = "mk_datetime 2025 1 1 23 59 59 200000"
  let ?t2 = "mk_datetime 2025 1 1 23 59 59 600000"
  let ?u1 = "mk_datetime 2025 1 1 18 0 0 0"
  let ?u2 = "mk_datetime 2025 1 2 1 0 0 0"
  let ?A = "attendances (snd (handle example_ext (utc_clock ?t2) Check_in ?req
              (example_db [example_attendance 1 ?t1 None])))"
  let ?B = "attendances (snd (handle example_ext (utc_clock ?u2) Toggle ?req
              (example_db [example_attendance 1 ?u1 None])))"
  have late: "date_of ?t1 = 739252" "date_of ?t2 = 739252"
    "day_start 739252 \<le> ?t1" "\<not> ?t1 \<le> day_last_second 739252"
    by (simp_all add: date_of_def day_start_def day_last_second_def mk_datetime_def
        ymd2ord_def days_before_year_def days_before_month_def is_leap_def
        usec_per_day_def usec_per_second_def)
  have A: "?A = [example_attendance 1 ?t1 None,
                 \<lparr>att_id = 2, employee_id = 1, check_in = ?t2, check_out = None,
                  working_hours = ''00:00:00'', selfie_photo = JNull,
                  att_latitude = JStr ''-6.969182'', att_longitude = JStr ''107.629251''\<rparr>]"
    by (simp add: check_in_endpoint_def example_request_def example_data_def example_db_def
        example_ext_def example_user_def example_employee_def example_company_def
        example_attendance_def utc_clock_def strict_data_of_def dict_get_def
        checkin_employee_def employees_of_user_def find_company_def or_default_def
        distance_to_office_def is_within_radius_def check_in_distance_def
        check_in_create_def existing_attendance_def create_attendance_def fresh_id_def
        Let_def late)
  have a1: "one_open_per_day (attendances (example_db [example_attendance 1 ?t1 None]))"
    by (simp add: one_open_per_day_def open_on_def example_db_def)
  have a2: "length (open_on ?A 1 739252) = 2"
    unfolding A by (simp add: open_on_def example_attendance_def late)
  have a3: "\<not> one_open_per_day ?A"
  proof
    assume "one_open_per_day ?A"
    then have "length (open_on ?A 1 739252) \<le> 1"
      unfolding one_open_per_day_def by blast
    with a2 show False by simp
  qed
  have run: "toggle_checkin_checkout example_ext clk ?req (example_db rs)
     = toggle_cycle clk
         \<lparr>v_employee = example_employee, v_latitude = JStr ''-6.969182'',
          v_longitude = JStr ''107.629251'', v_camera_image = JStr ''aGVsbG8='',
          v_distance = 0\<rparr> (example_db rs)" for clk rs
    by (simp add: toggle_checkin_checkout_def example_validate)
  have B: "?B = [example_attendance 1 ?u1 None,
                 \<lparr>att_id = 2, employee_id = 1, check_in = ?u2, check_out = None,
                  working_hours = ''00:00:00'', selfie_photo = JStr ''aGVsbG8='',
                  att_latitude = JStr ''-6.969182'', att_longitude = JStr ''107.629251''\<rparr>]"
    unfolding handle.simps run
    by (simp add: toggle_cycle_def today_attendance_def example_db_def
        example_attendance_def example_employee_def utc_clock_def in_today_iff
        example_dates create_attendance_def fresh_id_def Let_def)
  have b1: "one_open_per_wib_day (attendances (example_db [example_attendance 1 ?u1 None]))"
    by (simp add: one_open_per_wib_day_def open_on_wib_def example_db_def)
  have b2: "length (open_on_wib ?B 1 739253) = 2"
    unfolding B by (simp add: open_on_wib_def example_attendance_def example_dates)
  have b3: "\<not> one_open_per_wib_day ?B"
  proof
    assume "one_open_per_wib_day ?B"
    then have "length (open_on_wib ?B 1 739253) \<le> 1"
      unfolding one_open_per_wib_day_def by blast
    with b2 show False by simp
  qed
  from a1 a2 a3 b1 b2 b3 show ?thesis by blast
qed

section \<open>Toggles in sequence\<close>

lemma toggle_validate_employee:
  assumes "toggle_validate X req d = Inr (v, d2)" and "auth_user req = Some u"
  shows "toggle_employee u (env_company req) d = (v_employee v, d2)"
  using assms
  by (auto simp: toggle_validate_def toggle_office_coords Let_def
      split: option.splits if_splits prod.splits sum.splits)

lemma toggle_employee_first:
  assumes "toggle_employee u cid d = (e, d1)"
  shows "\<exists>es. employees_of_user d1 (usr_id u) = e # es"
proof (cases "employees_of_user d (usr_id u)")
  case Nil
  with assms show ?thesis
    by (auto simp: toggle_employee_def create_employee_def employees_of_user_def Let_def)
next
  case (Cons e' es)
  with assms show ?thesis
    by (auto simp: toggle_employee_def)
qed

lemma toggle_employee_known:
  "employees_of_user d (usr_id u) = e # es \<Longrightarrow> toggle_employee u cid d = (e, d)"
  by (simp add: toggle_employee_def)

lemma sql_update_checkout_fresh:
  "sql_update_checkout True (fresh_id (map att_id rs)) t wh
     (rs @ [\<lparr>att_id = fresh_id (map att_id rs), employee_id = eid, check_in = t0,
             check_out = None, working_hours = w0, selfie_photo = p,
             att_latitude = la, att_longitude = lo\<rparr>])
   = rs @ [\<lparr>att_id = fresh_id (map att_id rs), employee_id = eid, check_in = t0,
            check_out = Some t, working_hours = wh, selfie_photo = p,
            att_latitude = la, att_longitude = lo\<rparr>]"
proof -
  have "att_id r \<noteq> fresh_id (map att_id rs)" if "r \<in> set rs" for r
    using that fresh_id_notin [of "map att_id rs"] by (metis image_eqI set_map)
  then have "map (\<lambda>r. if sql_hit True (fresh_id (map att_id rs)) r
                      then r\<lparr>check_out := Some t, working_hours := wh\<rparr> else r) rs = rs"
    by (intro map_idI) (simp add: sql_hit_def)
  then show ?thesis
    by (simp add: sql_update_checkout_def sql_hit_def)
qed

lemma toggle_sequence:
  assumes auth: "auth_user req = Some u"
    and val: "toggle_validate X req d = Inr (v, d2)"
    and none: "(\<forall>r \<in> set (attendances d).
        employee_id r = emp_id (v_employee v) \<longrightarrow>
        date_of (check_in r) \<noteq> date_of (now_naive clk))"
    and stamp: "date_of (now_local clk) = date_of (now_naive clk)"
    and day2: "date_of (now_naive clk2) = date_of (now_naive clk)"
    and day3: "date_of (now_naive clk3) = date_of (now_naive clk)"
    and auth2: "auth_user req2 = Some u"
    and auth3: "auth_user req3 = Some u"
    and eq1: "s1 = snd (toggle_checkin_checkout X clk req d)"
    and eq2: "s2 = snd (toggle_checkin_checkout X clk2 req2 s1)"
    and val2: "toggle_validate X req2 s1 = Inr (v2, d4)"
    and val3: "toggle_validate X req3 s2 = Inr (v3, d6)"
  shows "v_employee v2 = v_employee v
    \<and> v_employee v3 = v_employee v
    \<and> fst (toggle_checkin_checkout X clk req d) =
            Toggle_ok \<lparr>action = ''check_in'', event_time = now_local clk, hours = None,
                  is_checked_in = True, distance_from_office = v_distance v\<rparr>
    \<and> attendances s1 = attendances d @
            [\<lparr>att_id = fresh_id (map att_id (attendances d)),
            employee_id = emp_id (v_employee v), check_in = now_local clk,
            check_out = None,
            working_hours = ''00:00:00'',
            selfie_photo = v_camera_image v, att_latitude = v_latitude v,
            att_longitude = v_longitude v\<rparr>]
    \<and> fst (toggle_checkin_checkout X clk2 req2 s1) =
            Toggle_ok \<lparr>action = ''check_out'', event_time = now_local clk2,
                  hours = Some (working_hours_of (now_local clk2 - now_local clk)),
                  is_checked_in = False, distance_from_office = v_distance v2\<rparr>
    \<and> attendances s2 = attendances d @
            [\<lparr>att_id = fresh_id (map att_id (attendances d)),
            employee_id = emp_id (v_employee v), check_in = now_local clk,
            check_out = Some (now_local clk2),
            working_hours = working_hours_of (now_local clk2 - now_local clk),
            selfie_photo = v_camera_image v, att_latitude = v_latitude v,
            att_longitude = v_longitude v\<rparr>]
    \<and> status_code (fst (toggle_checkin_checkout X clk3 req3 s2)) = 400
    \<and> snd (toggle_checkin_checkout X clk3 req3 s2) = s2"
proof -
  let ?eid = "emp_id (v_employee v)"
  let ?day = "date_of (now_naive clk)"
  let ?r1 = "\<lparr>att_id = fresh_id (map att_id (attendances d)),
            employee_id = emp_id (v_employee v), check_in = now_local clk,
            check_out = None,
            working_hours = ''00:00:00'',
            selfie_photo = v_camera_image v, att_latitude = v_latitude v,
            att_longitude = v_longitude v\<rparr>"
  let ?r2 = "\<lparr>att_id = fresh_id (map att_id (attendances d)),
            employee_id = emp_id (v_employee v), check_in = now_local clk,
            check_out = Some (now_local clk2),
            working_hours = working_hours_of (now_local clk2 - now_local clk),
            selfie_photo = v_camera_image v, att_latitude = v_latitude v,
            att_longitude = v_longitude v\<rparr>"
  have atts: "attendances d2 = attendances d"
    using val by (rule toggle_validate_attendances(2))
  have run1: "toggle_checkin_checkout X clk req d = toggle_cycle clk v d2"
    using val by (simp add: toggle_checkin_checkout_def)
  have "today_attendance d2 ?eid ?day = None"
    using none by (simp add: today_attendance_cong [OF atts] today_attendance_None_iff)
  from toggle_cycle_check_in [OF this]
  have out1: "toggle_checkin_checkout X clk req d =
      (Toggle_ok \<lparr>action = ''check_in'', event_time = now_local clk, hours = None,
                  is_checked_in = True, distance_from_office = v_distance v\<rparr>, d2\<lparr>attendances := attendances d @ [?r1]\<rparr>)"
    by (simp add: run1 atts)
  have s1: "s1 = d2\<lparr>attendances := attendances d @ [?r1]\<rparr>"
    by (simp add: eq1 out1)
  have a1: "attendances s1 = attendances d @ [?r1]" by (simp add: s1)
  from toggle_employee_first [OF toggle_validate_employee [OF val auth]]
  obtain es where es: "employees_of_user d2 (usr_id u) = v_employee v # es" ..
  then have es1: "employees_of_user s1 (usr_id u) = v_employee v # es"
    by (simp add: s1 employees_of_user_def)
  from toggle_validate_employee [OF val2 auth2] toggle_employee_known [OF es1]
  have e2: "v_employee v2 = v_employee v" and d4: "d4 = s1"
    by simp_all
  have run2: "toggle_checkin_checkout X clk2 req2 s1 = toggle_cycle clk2 v2 s1"
    using val2 d4 by (simp add: toggle_checkin_checkout_def)
  have empty: "filter (\<lambda>r. employee_id r = ?eid \<and> date_of (check_in r) = ?day) (attendances d) = []"
    using none by (auto simp: filter_empty_conv)
  have found2: "today_attendance s1 (emp_id (v_employee v2)) (date_of (now_naive clk2)) = Some ?r1"
    by (simp add: today_attendance_def a1 e2 day2 empty in_today_iff stamp)
  have "check_out ?r1 = None" by simp
  from toggle_cycle_check_out [OF found2 this]
  have out2: "toggle_checkin_checkout X clk2 req2 s1 =
      (Toggle_ok \<lparr>action = ''check_out'', event_time = now_local clk2,
                  hours = Some (working_hours_of (now_local clk2 - now_local clk)),
                  is_checked_in = False, distance_from_office = v_distance v2\<rparr>, s1\<lparr>attendances := attendances d @ [?r2]\<rparr>)"
    unfolding run2 by (simp add: a1 sql_update_checkout_fresh)
  have s2: "s2 = s1\<lparr>attendances := attendances d @ [?r2]\<rparr>"
    by (simp add: eq2 out2)
  have a2: "attendances s2 = attendances d @ [?r2]" by (simp add: s2)
  have es2: "employees_of_user s2 (usr_id u) = v_employee v # es"
    using es1 by (simp add: s2 employees_of_user_def)
  from toggle_validate_employee [OF val3 auth3] toggle_employee_known [OF es2]
  have e3: "v_employee v3 = v_employee v" and d6: "d6 = s2"
    by simp_all
  have run3: "toggle_checkin_checkout X clk3 req3 s2 = toggle_cycle clk3 v3 s2"
    using val3 d6 by (simp add: toggle_checkin_checkout_def)
  have found3: "today_attendance s2 (emp_id (v_employee v3)) (date_of (now_naive clk3)) = Some ?r2"
    by (simp add: today_attendance_def a2 e3 day3 empty in_today_iff stamp)
  have "check_out ?r2 = Some (now_local clk2)" by simp
  from toggle_cycle_done [OF found3 this]
  have out3: "status_code (fst (toggle_checkin_checkout X clk3 req3 s2)) = 400"
    "snd (toggle_checkin_checkout X clk3 req3 s2) = s2"
    by (simp_all add: run3)
  have o1: "fst (toggle_checkin_checkout X clk req d) =
      Toggle_ok \<lparr>action = ''check_in'', event_time = now_local clk, hours = None,
                  is_checked_in = True, distance_from_office = v_distance v\<rparr>"
    by (simp add: out1)
  have o2: "fst (toggle_checkin_checkout X clk2 req2 s1) =
      Toggle_ok \<lparr>action = ''check_out'', event_time = now_local clk2,
                  hours = Some (working_hours_of (now_local clk2 - now_local clk)),
                  is_checked_in = False, distance_from_office = v_distance v2\<rparr>"
    by (simp add: out2)
  from e2 e3 o1 a1 o2 a2 out3 show ?thesis
    by (intro conjI)
qed

text \<open>
  Claim C1, as the code has it. The toggle works on the first employee of the
  authenticated user and is a two-state machine over the records of that employee whose
  stored check-in has the date of the server clock: with no such record it creates one
  with \<open>check_in = now\<close>, the submitted coordinates and the photo, and answers
  \<open>check_in\<close> with \<open>is_checked_in = true\<close>; when the record found has no check-out,
  it sets \<open>check_out = now\<close> and the working hours on it and answers \<open>check_out\<close>
  with \<open>is_checked_in = false\<close>; when that record has a check-out, it answers with
  status 400 and changes nothing. In sequence: when the employee has no record of the
  day, the stamp written by the first toggle has the date of the server clock, and two
  later requests of the same user pass validation on that server date, then the first
  toggle checks in, the second closes the very record the first has written, with the
  hours elapsed between the two, and the third is answered 400 and changes nothing.
\<close>

theorem toggle_day_cycle:
  assumes "auth_user req = Some u" and "toggle_validate X req d = Inr (v, d2)"
  shows "(\<exists>es. employees_of_user d2 (usr_id u) = v_employee v # es)
    \<and> (\<forall>e es. employees_of_user d (usr_id u) = e # es \<longrightarrow> v_employee v = e \<and> d2 = d)
    \<and> attendances d2 = attendances d
    \<and> (\<forall>data. toggle_data_of (req_body req) = Some data \<longrightarrow>
          v_latitude v = dict_get data ''latitude''
        \<and> v_longitude v = dict_get data ''longitude''
        \<and> v_camera_image v = dict_get data ''camera_image'')
    \<and> ((\<forall>r \<in> set (attendances d).
            employee_id r = emp_id (v_employee v) \<longrightarrow>
            date_of (check_in r) \<noteq> date_of (now_naive clk)) \<longrightarrow>
        toggle_checkin_checkout X clk req d =
          (Toggle_ok \<lparr>action = ''check_in'', event_time = now_local clk, hours = None,
                      is_checked_in = True, distance_from_office = v_distance v\<rparr>,
           d2\<lparr>attendances := attendances d @
               [\<lparr>att_id = fresh_id (map att_id (attendances d)),
                 employee_id = emp_id (v_employee v), check_in = now_local clk,
                 check_out = None, working_hours = ''00:00:00'',
                 selfie_photo = v_camera_image v, att_latitude = v_latitude v,
                 att_longitude = v_longitude v\<rparr>]\<rparr>))
    \<and> (\<forall>r. today_attendance d (emp_id (v_employee v)) (date_of (now_naive clk)) = Some r
             \<and> check_out r = None \<longrightarrow>
        toggle_checkin_checkout X clk req d =
          (Toggle_ok \<lparr>action = ''check_out'', event_time = now_local clk,
                      hours = Some (working_hours_of (now_local clk - check_in r)),
                      is_checked_in = False, distance_from_office = v_distance v\<rparr>,
           d2\<lparr>attendances := sql_update_checkout True (att_id r) (now_local clk)
                               (working_hours_of (now_local clk - check_in r)) (attendances d)\<rparr>)
        \<and> r\<lparr>check_out := Some (now_local clk),
             working_hours := working_hours_of (now_local clk - check_in r)\<rparr>
            \<in> set (attendances (snd (toggle_checkin_checkout X clk req d))))
    \<and> (\<forall>r t. today_attendance d (emp_id (v_employee v)) (date_of (now_naive clk)) = Some r
             \<and> check_out r = Some t \<longrightarrow>
        status_code (fst (toggle_checkin_checkout X clk req d)) = 400
        \<and> snd (toggle_checkin_checkout X clk req d) = d2)
    \<and> (\<forall>clk2 req2 v2 d4 clk3 req3 v3 d6 s1 s2.
          ((\<forall>r \<in> set (attendances d).
        employee_id r = emp_id (v_employee v) \<longrightarrow>
        date_of (check_in r) \<noteq> date_of (now_naive clk))
        \<and> date_of (now_local clk) = date_of (now_naive clk)
        \<and> date_of (now_naive clk2) = date_of (now_naive clk)
        \<and> date_of (now_naive clk3) = date_of (now_naive clk)
        \<and> auth_user req2 = Some u
        \<and> auth_user req3 = Some u
        \<and> s1 = snd (toggle_checkin_checkout X clk req d)
        \<and> s2 = snd (toggle_checkin_checkout X clk2 req2 s1)
        \<and> toggle_validate X req2 s1 = Inr (v2, d4)
        \<and> toggle_validate X req3 s2 = Inr (v3, d6)) \<longrightarrow>
          v_employee v2 = v_employee v
        \<and> v_employee v3 = v_employee v
        \<and> fst (toggle_checkin_checkout X clk req d) =
            Toggle_ok \<lparr>action = ''check_in'', event_time = now_local clk, hours = None,
                  is_checked_in = True, distance_from_office = v_distance v\<rparr>
        \<and> attendances s1 = attendances d @
            [\<lparr>att_id = fresh_id (map att_id (attendances d)),
            employee_id = emp_id (v_employee v), check_in = now_local clk,
            check_out = None,
            working_hours = ''00:00:00'',
            selfie_photo = v_camera_image v, att_latitude = v_latitude v,
            att_longitude = v_longitude v\<rparr>]
        \<and> fst (toggle_checkin_checkout X clk2 req2 s1) =
            Toggle_ok \<lparr>action = ''check_out'', event_time = now_local clk2,
                  hours = Some (working_hours_of (now_local clk2 - now_local clk)),
                  is_checked_in = False, distance_from_office = v_distance v2\<rparr>
        \<and> attendances s2 = attendances d @
            [\<lparr>att_id = fresh_id (map att_id (attendances d)),
            employee_id = emp_id (v_employee v), check_in = now_local clk,
            check_out = Some (now_local clk2),
            working_hours = working_hours_of (now_local clk2 - now_local clk),
            selfie_photo = v_camera_image v, att_latitude = v_latitude v,
            att_longitude = v_longitude v\<rparr>]
        \<and> status_code (fst (toggle_checkin_checkout X clk3 req3 s2)) = 400
        \<and> snd (toggle_checkin_checkout X clk3 req3 s2) = s2)"
proof -
  have emp: "toggle_employee u (env_company req) d = (v_employee v, d2)"
    using assms(2,1) by (rule toggle_validate_employee)
  have f1: "(\<exists>es. employees_of_user d2 (usr_id u) = v_employee v # es)"
    using emp by (rule toggle_employee_first)
  have f2: "(\<forall>e es. employees_of_user d (usr_id u) = e # es \<longrightarrow> v_employee v = e \<and> d2 = d)"
  proof (intro allI impI)
    fix e es
    assume "employees_of_user d (usr_id u) = e # es"
    from toggle_employee_known [OF this, of "env_company req"] emp
    show "v_employee v = e \<and> d2 = d" by simp
  qed
  note step = toggle_step [OF assms(2), of clk]
  have f3: "attendances d2 = attendances d"
    using step by (rule conjunct1)
  have f4: "(\<forall>data. toggle_data_of (req_body req) = Some data \<longrightarrow>
          v_latitude v = dict_get data ''latitude''
        \<and> v_longitude v = dict_get data ''longitude''
        \<and> v_camera_image v = dict_get data ''camera_image'')"
    using step [THEN conjunct2] by (rule conjunct1)
  have f5: "((\<forall>r \<in> set (attendances d).
            employee_id r = emp_id (v_employee v) \<longrightarrow>
            date_of (check_in r) \<noteq> date_of (now_naive clk)) \<longrightarrow>
        toggle_checkin_checkout X clk req d =
          (Toggle_ok \<lparr>action = ''check_in'', event_time = now_local clk, hours = None,
                      is_checked_in = True, distance_from_office = v_distance v\<rparr>,
           d2\<lparr>attendances := attendances d @
               [\<lparr>att_id = fresh_id (map att_id (attendances d)),
                 employee_id = emp_id (v_employee v), check_in = now_local clk,
                 check_out = None, working_hours = ''00:00:00'',
                 selfie_photo = v_camera_image v, att_latitude = v_latitude v,
                 att_longitude = v_longitude v\<rparr>]\<rparr>))"
    using step [THEN conjunct2, THEN conjunct2] by (rule conjunct1)
  have f6: "(\<forall>r. today_attendance d (emp_id (v_employee v)) (date_of (now_naive clk)) = Some r
             \<and> check_out r = None \<longrightarrow>
        toggle_checkin_checkout X clk req d =
          (Toggle_ok \<lparr>action = ''check_out'', event_time = now_local clk,
                      hours = Some (working_hours_of (now_local clk - check_in r)),
                      is_checked_in = False, distance_from_office = v_distance v\<rparr>,
           d2\<lparr>attendances := sql_update_checkout True (att_id r) (now_local clk)
                               (working_hours_of (now_local clk - check_in r)) (attendances d)\<rparr>)
        \<and> r\<lparr>check_out := Some (now_local clk),
             working_hours := working_hours_of (now_local clk - check_in r)\<rparr>
            \<in> set (attendances (snd (toggle_checkin_checkout X clk req d))))"
    using step [THEN conjunct2, THEN conjunct2, THEN conjunct2] by (rule conjunct1)
  have f7: "(\<forall>r t. today_attendance d (emp_id (v_employee v)) (date_of (now_naive clk)) = Some r
             \<and> check_out r = Some t \<longrightarrow>
        status_code (fst (toggle_checkin_checkout X clk req d)) = 400
        \<and> snd (toggle_checkin_checkout X clk req d) = d2)"
    using step [THEN conjunct2, THEN conjunct2, THEN conjunct2] by (rule conjunct2)
  have f8: "(\<forall>clk2 req2 v2 d4 clk3 req3 v3 d6 s1 s2.
          ((\<forall>r \<in> set (attendances d).
        employee_id r = emp_id (v_employee v) \<longrightarrow>
        date_of (check_in r) \<noteq> date_of (now_naive clk))
        \<and> date_of (now_local clk) = date_of (now_naive clk)
        \<and> date_of (now_naive clk2) = date_of (now_naive clk)
        \<and> date_of (now_naive clk3) = date_of (now_naive clk)
        \<and> auth_user req2 = Some u
        \<and> auth_user req3 = Some u
        \<and> s1 = snd (toggle_checkin_checkout X clk req d)
        \<and> s2 = snd (toggle_checkin_checkout X clk2 req2 s1)
        \<and> toggle_validate X req2 s1 = Inr (v2, d4)
        \<and> toggle_validate X req3 s2 = Inr (v3, d6)) \<longrightarrow>
          v_employee v2 = v_employee v
        \<and> v_employee v3 = v_employee v
        \<and> fst (toggle_checkin_checkout X clk req d) =
            Toggle_ok \<lparr>action = ''check_in'', event_time = now_local clk, hours = None,
                  is_checked_in = True, distance_from_office = v_distance v\<rparr>
        \<and> attendances s1 = attendances d @
            [\<lparr>att_id = fresh_id (map att_id (attendances d)),
            employee_id = emp_id (v_employee v), check_in = now_local clk,
            check_out = None,
            working_hours = ''00:00:00'',
            selfie_photo = v_camera_image v, att_latitude = v_latitude v,
            att_longitude = v_longitude v\<rparr>]
        \<and> fst (toggle_checkin_checkout X clk2 req2 s1) =
            Toggle_ok \<lparr>action = ''check_out'', event_time = now_local clk2,
                  hours = Some (working_hours_of (now_local clk2 - now_local clk)),
                  is_checked_in = False, distance_from_office = v_distance v2\<rparr>
        \<and> attendances s2 = attendances d @
            [\<lparr>att_id = fresh_id (map att_id (attendances d)),
            employee_id = emp_id (v_employee v), check_in = now_local clk,
            check_out = Some (now_local clk2),
            working_hours = working_hours_of (now_local clk2 - now_local clk),
            selfie_photo = v_camera_image v, att_latitude = v_latitude v,
            att_longitude = v_longitude v\<rparr>]
        \<and> status_code (fst (toggle_checkin_checkout X clk3 req3 s2)) = 400
        \<and> snd (toggle_checkin_checkout X clk3 req3 s2) = s2)"
  proof (intro allI impI)
    fix clk2 :: clock and req2 v2 d4 and clk3 :: clock and req3 v3 d6 s1 s2
    assume p: "(\<forall>r \<in> set (attendances d).
        employee_id r = emp_id (v_employee v) \<longrightarrow>
        date_of (check_in r) \<noteq> date_of (now_naive clk))
        \<and> date_of (now_local clk) = date_of (now_naive clk)
        \<and> date_of (now_naive clk2) = date_of (now_naive clk)
        \<and> date_of (now_naive clk3) = date_of (now_naive clk)
        \<and> auth_user req2 = Some u
        \<and> auth_user req3 = Some u
        \<and> s1 = snd (toggle_checkin_checkout X clk req d)
        \<and> s2 = snd (toggle_checkin_checkout X clk2 req2 s1)
        \<and> toggle_validate X req2 s1 = Inr (v2, d4)
        \<and> toggle_validate X req3 s2 = Inr (v3, d6)"
    from p have none: "(\<forall>r \<in> set (attendances d).
        employee_id r = emp_id (v_employee v) \<longrightarrow>
        date_of (check_in r) \<noteq> date_of (now_naive clk))" by (rule conjunct1)
    from p have rest: "date_of (now_local clk) = date_of (now_naive clk)"
      "date_of (now_naive clk2) = date_of (now_naive clk)"
      "date_of (now_naive clk3) = date_of (now_naive clk)"
      "auth_user req2 = Some u"
      "auth_user req3 = Some u"
      "s1 = snd (toggle_checkin_checkout X clk req d)"
      "s2 = snd (toggle_checkin_checkout X clk2 req2 s1)"
      "toggle_validate X req2 s1 = Inr (v2, d4)"
      "toggle_validate X req3 s2 = Inr (v3, d6)"
      by blast+
    show "v_employee v2 = v_employee v
        \<and> v_employee v3 = v_employee v
        \<and> fst (toggle_checkin_checkout X clk req d) =
            Toggle_ok \<lparr>action = ''check_in'', event_time = now_local clk, hours = None,
                  is_checked_in = True, distance_from_office = v_distance v\<rparr>
        \<and> attendances s1 = attendances d @
            [\<lparr>att_id = fresh_id (map att_id (attendances d)),
            employee_id = emp_id (v_employee v), check_in = now_local clk,
            check_out = None,
            working_hours = ''00:00:00'',
            selfie_photo = v_camera_image v, att_latitude = v_latitude v,
            att_longitude = v_longitude v\<rparr>]
        \<and> fst (toggle_checkin_checkout X clk2 req2 s1) =
            Toggle_ok \<lparr>action = ''check_out'', event_time = now_local clk2,
                  hours = Some (working_hours_of (now_local clk2 - now_local clk)),
                  is_checked_in = False, distance_from_office = v_distance v2\<rparr>
        \<and> attendances s2 = attendances d @
            [\<lparr>att_id = fresh_id (map att_id (attendances d)),
            employee_id = emp_id (v_employee v), check_in = now_local clk,
            check_out = Some (now_local clk2),
            working_hours = working_hours_of (now_local clk2 - now_local clk),
            selfie_photo = v_camera_image v, att_latitude = v_latitude v,
            att_longitude = v_longitude v\<rparr>]
        \<and> status_code (fst (toggle_checkin_checkout X clk3 req3 s2)) = 400
        \<and> snd (toggle_checkin_checkout X clk3 req3 s2) = s2"
      using assms none rest by (rule toggle_sequence)
  qed
  from f1 f2 f3 f4 f5 f6 f7 f8 show ?thesis
    by (intro conjI)
qed

theorem toggle_day_cycle_witness:
  "auth_user (example_request (example_data (JStr ''-6.969182'') (JStr ''107.629251''))) = Some example_user
 \<and> toggle_validate example_ext
       (example_request (example_data (JStr ''-6.969182'') (JStr ''107.629251'')))
       (example_db [])
     = Inr (\<lparr>v_employee = example_employee, v_latitude = JStr ''-6.969182'',
           v_longitude = JStr ''107.629251'', v_camera_image = JStr ''aGVsbG8='',
           v_distance = 0\<rparr>, example_db [])
 \<and> employees_of_user (example_db []) (usr_id example_user) = [example_employee]
 \<and> date_of (now_local example_clock) = date_of (now_naive example_clock)
 \<and> date_of (now_naive (utc_clock (mk_datetime 2025 1 1 9 30 15 0))) = date_of (now_naive example_clock)
 \<and> date_of (now_naive (utc_clock (mk_datetime 2025 1 1 10 0 0 0))) = date_of (now_naive example_clock)
 \<and> toggle_validate example_ext
       (example_request (example_data (JStr ''-6.969182'') (JStr ''107.629251'')))
       (example_db [example_attendance 1 (mk_datetime 2025 1 1 1 0 0 0) None])
     = Inr (\<lparr>v_employee = example_employee, v_latitude = JStr ''-6.969182'',
           v_longitude = JStr ''107.629251'', v_camera_image = JStr ''aGVsbG8='',
           v_distance = 0\<rparr>,
            example_db [example_attendance 1 (mk_datetime 2025 1 1 1 0 0 0) None])
 \<and> toggle_validate example_ext
       (example_request (example_data (JStr ''-6.969182'') (JStr ''107.629251'')))
       (example_db [(example_attendance 1 (mk_datetime 2025 1 1 1 0 0 0)
          (Some (mk_datetime 2025 1 1 9 30 15 0)))\<lparr>working_hours := ''08:30:15''\<rparr>])
     = Inr (\<lparr>v_employee = example_employee, v_latitude = JStr ''-6.969182'',
           v_longitude = JStr ''107.629251'', v_camera_image = JStr ''aGVsbG8='',
           v_distance = 0\<rparr>,
            example_db [(example_attendance 1 (mk_datetime 2025 1 1 1 0 0 0)
          (Some (mk_datetime 2025 1 1 9 30 15 0)))\<lparr>working_hours := ''08:30:15''\<rparr>])
 \<and> toggle_checkin_checkout example_ext example_clock
       (example_request (example_data (JStr ''-6.969182'') (JStr ''107.629251'')))
       (example_db [])
   = (Toggle_ok \<lparr>action = ''check_in'', event_time = mk_datetime 2025 1 1 1 0 0 0,
                  hours = None, is_checked_in = True, distance_from_office = 0\<rparr>,
      example_db [example_attendance 1 (mk_datetime 2025 1 1 1 0 0 0) None])
 \<and> toggle_checkin_checkout example_ext (utc_clock (mk_datetime 2025 1 1 9 30 15 0))
       (example_request (example_data (JStr ''-6.969182'') (JStr ''107.629251'')))
       (example_db [example_attendance 1 (mk_datetime 2025 1 1 1 0 0 0) None])
   = (Toggle_ok \<lparr>action = ''check_out'', event_time = mk_datetime 2025 1 1 9 30 15 0,
                  hours = Some ''08:30:15'', is_checked_in = False, distance_from_office = 0\<rparr>,
      example_db [(example_attendance 1 (mk_datetime 2025 1 1 1 0 0 0)
          (Some (mk_datetime 2025 1 1 9 30 15 0)))\<lparr>working_hours := ''08:30:15''\<rparr>])
 \<and> status_code (fst (toggle_checkin_checkout example_ext (utc_clock (mk_datetime 2025 1 1 10 0 0 0))
       (example_request (example_data (JStr ''-6.969182'') (JStr ''107.629251'')))
       (example_db [(example_attendance 1 (mk_datetime 2025 1 1 1 0 0 0)
          (Some (mk_datetime 2025 1 1 9 30 15 0)))\<lparr>working_hours := ''08:30:15''\<rparr>]))) = 400
 \<and> snd (toggle_checkin_checkout example_ext (utc_clock (mk_datetime 2025 1 1 10 0 0 0))
       (example_request (example_data (JStr ''-6.969182'') (JStr ''107.629251'')))
       (example_db [(example_attendance 1 (mk_datetime 2025 1 1 1 0 0 0)
          (Some (mk_datetime 2025 1 1 9 30 15 0)))\<lparr>working_hours := ''08:30:15''\<rparr>]))
     = example_db [(example_attendance 1 (mk_datetime 2025 1 1 1 0 0 0)
          (Some (mk_datetime 2025 1 1 9 30 15 0)))\<lparr>working_hours := ''08:30:15''\<rparr>]
 \<and> v_employee \<lparr>v_employee = example_employee, v_latitude = JStr ''-6.969182'',
           v_longitude = JStr ''107.629251'', v_camera_image = JStr ''aGVsbG8='',
           v_distance = 0\<rparr> = example_employee
 \<and> toggle_data_of (req_body (example_request (example_data (JStr ''-6.969182'') (JStr ''107.629251'')))) = Some (example_data (JStr ''-6.969182'') (JStr ''107.629251''))
 \<and> v_latitude \<lparr>v_employee = example_employee, v_latitude = JStr ''-6.969182'',
           v_longitude = JStr ''107.629251'', v_camera_image = JStr ''aGVsbG8='',
           v_distance = 0\<rparr> = dict_get (example_data (JStr ''-6.969182'') (JStr ''107.629251'')) ''latitude''"
proof -
  let ?req = "(example_request (example_data (JStr ''-6.969182'') (JStr ''107.629251'')))"
  let ?v = "\<lparr>v_employee = example_employee, v_latitude = JStr ''-6.969182'',
           v_longitude = JStr ''107.629251'', v_camera_image = JStr ''aGVsbG8='',
           v_distance = 0\<rparr>"
  let ?t1 = "mk_datetime 2025 1 1 1 0 0 0"
  let ?t2 = "mk_datetime 2025 1 1 9 30 15 0"
  let ?t3 = "mk_datetime 2025 1 1 10 0 0 0"
  let ?r1 = "example_attendance 1 (mk_datetime 2025 1 1 1 0 0 0) None"
  let ?r2 = "(example_attendance 1 (mk_datetime 2025 1 1 1 0 0 0)
          (Some (mk_datetime 2025 1 1 9 30 15 0)))\<lparr>working_hours := ''08:30:15''\<rparr>"
  have auth: "auth_user ?req = Some example_user"
    by (simp add: example_request_def)
  have emp: "employees_of_user (example_db []) (usr_id example_user) = [example_employee]"
    by (simp add: employees_of_user_def example_db_def example_user_def example_employee_def)
  have dates: "date_of ?t1 = 739252" "date_of ?t2 = 739252" "date_of ?t3 = 739252"
    by (simp_all add: date_of_def mk_datetime_def ymd2ord_def days_before_year_def
        days_before_month_def is_leap_def usec_per_day_def usec_per_second_def)
  have clocks: "date_of (now_local example_clock) = date_of (now_naive example_clock)"
    "date_of (now_naive (utc_clock ?t2)) = date_of (now_naive example_clock)"
    "date_of (now_naive (utc_clock ?t3)) = date_of (now_naive example_clock)"
    by (simp_all add: example_clock_def utc_clock_def dates)
  have "?t2 - ?t1 = 30615000000"
    by (simp add: mk_datetime_def usec_per_second_def)
  moreover have "spec_hh_mm_ss 30615000000 = ''08:30:15''"
    by (simp add: spec_hh_mm_ss_def usec_per_second_def pad2_def digits.simps)
  ultimately have wh: "working_hours_of (?t2 - ?t1) = ''08:30:15''"
    by (simp add: working_hours_of_bounded)
  have none: "\<forall>r \<in> set (attendances (example_db [])).
      employee_id r = emp_id (v_employee ?v) \<longrightarrow>
      date_of (check_in r) \<noteq> date_of (now_naive example_clock)"
    by (simp add: example_db_def)
  note th = toggle_day_cycle [OF auth example_validate [of "[]"], of example_clock]
  note first = th [THEN conjunct2, THEN conjunct2, THEN conjunct2, THEN conjunct2,
      THEN conjunct1, THEN mp]
  note seq = th [THEN conjunct2, THEN conjunct2, THEN conjunct2, THEN conjunct2,
      THEN conjunct2, THEN conjunct2, THEN conjunct2,
      THEN spec [where x = "utc_clock ?t2"], THEN spec [where x = ?req],
      THEN spec [where x = ?v], THEN spec [where x = "example_db [?r1]"],
      THEN spec [where x = "utc_clock ?t3"], THEN spec [where x = ?req],
      THEN spec [where x = ?v], THEN spec [where x = "example_db [?r2]"],
      THEN spec [where x = "example_db [?r1]"], THEN spec [where x = "example_db [?r2]"],
      THEN mp]
  have step1: "toggle_checkin_checkout example_ext example_clock ?req (example_db [])
      = (Toggle_ok \<lparr>action = ''check_in'', event_time = ?t1,
                  hours = None, is_checked_in = True, distance_from_office = 0\<rparr>,
         example_db [?r1])"
    using first [OF none]
    by (simp add: example_db_def example_attendance_def example_clock_def utc_clock_def
        example_employee_def fresh_id_def)
  have s1: "example_db [?r1]
      = snd (toggle_checkin_checkout example_ext example_clock ?req (example_db []))"
    by (simp only: step1 snd_conv)
  have val2: "toggle_validate example_ext ?req (example_db [?r1]) = Inr (?v, example_db [?r1])"
    by (rule example_validate)
  have open_found: "today_attendance (example_db [?r1]) (emp_id (v_employee ?v))
      (date_of (now_naive (utc_clock ?t2))) = Some ?r1 \<and> check_out ?r1 = None"
    by (simp add: today_attendance_def example_db_def example_attendance_def
        example_employee_def utc_clock_def in_today_iff dates)
  note second = toggle_day_cycle [OF auth example_validate [of "[?r1]"], of "utc_clock ?t2",
      THEN conjunct2, THEN conjunct2, THEN conjunct2, THEN conjunct2, THEN conjunct2,
      THEN conjunct1, rule_format, OF open_found, THEN conjunct1]
  have step2: "toggle_checkin_checkout example_ext (utc_clock ?t2) ?req (example_db [?r1])
      = (Toggle_ok \<lparr>action = ''check_out'', event_time = ?t2,
                  hours = Some ''08:30:15'', is_checked_in = False, distance_from_office = 0\<rparr>,
         example_db [?r2])"
    using second wh
    by (simp add: example_db_def example_attendance_def utc_clock_def
        sql_update_checkout_def sql_hit_def)
  have s2: "example_db [?r2]
      = snd (toggle_checkin_checkout example_ext (utc_clock ?t2) ?req (example_db [?r1]))"
    by (simp only: step2 snd_conv)
  have val3: "toggle_validate example_ext ?req (example_db [?r2]) = Inr (?v, example_db [?r2])"
    by (rule example_validate)
  have prem: "(\<forall>r \<in> set (attendances (example_db [])).
        employee_id r = emp_id (v_employee ?v) \<longrightarrow>
        date_of (check_in r) \<noteq> date_of (now_naive example_clock))
      \<and> date_of (now_local example_clock) = date_of (now_naive example_clock)
      \<and> date_of (now_naive (utc_clock ?t2)) = date_of (now_naive example_clock)
      \<and> date_of (now_naive (utc_clock ?t3)) = date_of (now_naive example_clock)
      \<and> auth_user ?req = Some example_user
      \<and> auth_user ?req = Some example_user
      \<and> example_db [?r1]
          = snd (toggle_checkin_checkout example_ext example_clock ?req (example_db []))
      \<and> example_db [?r2]
          = snd (toggle_checkin_checkout example_ext (utc_clock ?t2) ?req (example_db [?r1]))
      \<and> toggle_validate example_ext ?req (example_db [?r1]) = Inr (?v, example_db [?r1])
      \<and> toggle_validate example_ext ?req (example_db [?r2]) = Inr (?v, example_db [?r2])"
    using none clocks auth auth s1 s2 val2 val3 by (intro conjI)
  note run = seq [OF prem]
  have kept: "snd (toggle_checkin_checkout example_ext (utc_clock ?t3) ?req (example_db [?r2]))
      = example_db [?r2]"
    using run by (elim conjE)
  have closed_found: "today_attendance (example_db [?r2]) (emp_id (v_employee ?v))
      (date_of (now_naive (utc_clock ?t3))) = Some ?r2 \<and> check_out ?r2 = Some ?t2"
    by (simp add: today_attendance_def example_db_def example_attendance_def
        example_employee_def utc_clock_def in_today_iff dates)
  note closed = toggle_day_cycle [OF auth example_validate [of "[?r2]"], of "utc_clock ?t3",
      THEN conjunct2, THEN conjunct2, THEN conjunct2, THEN conjunct2, THEN conjunct2,
      THEN conjunct2, THEN conjunct1, rule_format, OF closed_found]
  have step3: "status_code (fst (toggle_checkin_checkout example_ext (utc_clock ?t3) ?req
      (example_db [?r2]))) = 400"
    using closed by (rule conjunct1)
  have same_emp: "v_employee ?v = example_employee"
    using th [THEN conjunct2, THEN conjunct1, rule_format, OF emp] by (rule conjunct1)
  have data: "toggle_data_of (req_body ?req)
      = Some (example_data (JStr ''-6.969182'') (JStr ''107.629251''))"
    by (simp add: example_request_def toggle_data_of_def)
  have lat: "v_latitude ?v
      = dict_get (example_data (JStr ''-6.969182'') (JStr ''107.629251'')) ''latitude''"
    using th [THEN conjunct2, THEN conjunct2, THEN conjunct2, THEN conjunct1, rule_format,
        OF data] by (rule conjunct1)
  from auth example_validate [of "[]"] emp clocks val2 val3 step1 step2 step3 kept
    same_emp data lat
  show ?thesis by (intro conjI)
qed

text \<open>
  The claim as the specification words it fails: two toggles of one employee on one
  calendar day are both answered as check-ins. On a server whose clock shows UTC, at
  01:00 and at 08:00 Jakarta time of 2 January 2025; on a server whose clock shows
  Jakarta time, at 01:00 and at 01:05 of that day.
\<close>

theorem toggle_checks_in_twice:
  "wib_date (mk_datetime 2025 1 1 18 0 0 0) = wib_date (mk_datetime 2025 1 2 1 0 0 0)
 \<and> fst (toggle_checkin_checkout example_ext (utc_clock (mk_datetime 2025 1 1 18 0 0 0))
       (example_request (example_data (JStr ''-6.969182'') (JStr ''107.629251'')))
       (example_db []))
   = Toggle_ok \<lparr>action = ''check_in'', event_time = mk_datetime 2025 1 1 18 0 0 0,
                 hours = None, is_checked_in = True, distance_from_office = 0\<rparr>
 \<and> fst (toggle_checkin_checkout example_ext (utc_clock (mk_datetime 2025 1 2 1 0 0 0))
       (example_request (example_data (JStr ''-6.969182'') (JStr ''107.629251'')))
       (snd (toggle_checkin_checkout example_ext (utc_clock (mk_datetime 2025 1 1 18 0 0 0))
       (example_request (example_data (JStr ''-6.969182'') (JStr ''107.629251'')))
       (example_db []))))
   = Toggle_ok \<lparr>action = ''check_in'', event_time = mk_datetime 2025 1 2 1 0 0 0,
                 hours = None, is_checked_in = True, distance_from_office = 0\<rparr>
 \<and> date_of (mk_datetime 2025 1 1 18 0 0 0) = date_of (mk_datetime 2025 1 1 18 5 0 0)
 \<and> wib_date (mk_datetime 2025 1 1 18 0 0 0) = wib_date (mk_datetime 2025 1 1 18 5 0 0)
 \<and> fst (toggle_checkin_checkout example_ext (wib_clock (mk_datetime 2025 1 1 18 0 0 0))
       (example_request (example_data (JStr ''-6.969182'') (JStr ''107.629251'')))
       (example_db []))
   = Toggle_ok \<lparr>action = ''check_in'', event_time = mk_datetime 2025 1 1 18 0 0 0,
                 hours = None, is_checked_in = True, distance_from_office = 0\<rparr>
 \<and> fst (toggle_checkin_checkout example_ext (wib_clock (mk_datetime 2025 1 1 18 5 0 0))
       (example_request (example_data (JStr ''-6.969182'') (JStr ''107.629251'')))
       (snd (toggle_checkin_checkout example_ext (wib_clock (mk_datetime 2025 1 1 18 0 0 0))
       (example_request (example_data (JStr ''-6.969182'') (JStr ''107.629251'')))
       (example_db []))))
   = Toggle_ok \<lparr>action = ''check_in'', event_time = mk_datetime 2025 1 1 18 5 0 0,
                 hours = None, is_checked_in = True, distance_from_office = 0\<rparr>"
proof -
  have run: "toggle_checkin_checkout example_ext clk (example_request (example_data (JStr ''-6.969182'') (JStr ''107.629251''))) (example_db rs)
     = toggle_cycle clk
         \<lparr>v_employee = example_employee, v_latitude = JStr ''-6.969182'',
           v_longitude = JStr ''107.629251'', v_camera_image = JStr ''aGVsbG8='',
           v_distance = 0\<rparr> (example_db rs)" for clk rs
    by (simp add: toggle_checkin_checkout_def example_validate)
  have local_dates: "date_of (mk_datetime 2025 1 1 18 0 0 0 + hours_td 7) = 739253"
    by (simp add: hours_td_def date_of_def mk_datetime_def ymd2ord_def
        days_before_year_def days_before_month_def is_leap_def usec_per_day_def
        usec_per_second_def)
  have a1: "toggle_checkin_checkout example_ext (utc_clock (mk_datetime 2025 1 1 18 0 0 0))
       (example_request (example_data (JStr ''-6.969182'') (JStr ''107.629251'')))
       (example_db [])
     = (Toggle_ok \<lparr>action = ''check_in'', event_time = mk_datetime 2025 1 1 18 0 0 0,
                 hours = None, is_checked_in = True, distance_from_office = 0\<rparr>, example_db [example_attendance 1 (mk_datetime 2025 1 1 18 0 0 0) None])"
    unfolding run
    by (simp add: toggle_cycle_def today_attendance_def example_db_def
        example_attendance_def example_employee_def utc_clock_def
        create_attendance_def fresh_id_def Let_def)
  have b1: "toggle_checkin_checkout example_ext (wib_clock (mk_datetime 2025 1 1 18 0 0 0))
       (example_request (example_data (JStr ''-6.969182'') (JStr ''107.629251'')))
       (example_db [])
     = (Toggle_ok \<lparr>action = ''check_in'', event_time = mk_datetime 2025 1 1 18 0 0 0,
                 hours = None, is_checked_in = True, distance_from_office = 0\<rparr>, example_db [example_attendance 1 (mk_datetime 2025 1 1 18 0 0 0) None])"
    unfolding run
    by (simp add: toggle_cycle_def today_attendance_def example_db_def
        example_attendance_def example_employee_def wib_clock_def
        create_attendance_def fresh_id_def Let_def)
  have a2: "fst (toggle_checkin_checkout example_ext (utc_clock (mk_datetime 2025 1 2 1 0 0 0)) (example_request (example_data (JStr ''-6.969182'') (JStr ''107.629251'')))
        (example_db [example_attendance 1 (mk_datetime 2025 1 1 18 0 0 0) None]))
     = Toggle_ok \<lparr>action = ''check_in'', event_time = mk_datetime 2025 1 2 1 0 0 0,
                 hours = None, is_checked_in = True, distance_from_office = 0\<rparr>"
    unfolding run
    by (simp add: toggle_cycle_def today_attendance_def example_db_def
        example_attendance_def example_employee_def utc_clock_def in_today_iff
        example_dates create_attendance_def Let_def)
  have b2: "fst (toggle_checkin_checkout example_ext (wib_clock (mk_datetime 2025 1 1 18 5 0 0)) (example_request (example_data (JStr ''-6.969182'') (JStr ''107.629251'')))
        (example_db [example_attendance 1 (mk_datetime 2025 1 1 18 0 0 0) None]))
     = Toggle_ok \<lparr>action = ''check_in'', event_time = mk_datetime 2025 1 1 18 5 0 0,
                 hours = None, is_checked_in = True, distance_from_office = 0\<rparr>"
    unfolding run
    by (simp add: toggle_cycle_def today_attendance_def example_db_def
        example_attendance_def example_employee_def wib_clock_def in_today_iff
        example_dates create_attendance_def Let_def)
  show ?thesis
    by (simp only: a1 b1 a2 b2 snd_conv fst_conv example_dates simp_thms)
qed

end
